theory Spec2Isabelle
  imports Main "HOL-Library.Sublist"
begin

section \<open>The process model\<close>

text \<open>
  The repository holds one command-line script, \<^verbatim>\<open>deploy-ntt\<close>, in two revisions:
  \<^verbatim>\<open>src/unnamed/part_000\<close> (with \<^verbatim>\<open>checkPrerequisites\<close>, \<^verbatim>\<open>findNttKeypairFile\<close> and
  \<^verbatim>\<open>prepareSolanaDeployment\<close>) and \<^verbatim>\<open>src/src/deploy-ntt.ts\<close>, whose \<^verbatim>\<open>printUsage\<close>,
  \<^verbatim>\<open>parseArgs\<close> and main block are the same text and whose \<^verbatim>\<open>deployNTT\<close> is the same
  sequence without the calls of \<^verbatim>\<open>checkPrerequisites\<close> and \<^verbatim>\<open>prepareSolanaDeployment\<close>.
  The embedding follows \<^verbatim>\<open>part_000\<close>.

  The script talks to the outside through \<^verbatim>\<open>execSync\<close>, \<^verbatim>\<open>existsSync\<close>,
  \<^verbatim>\<open>process.chdir\<close>, \<^verbatim>\<open>writeFileSync\<close>, the console and \<^verbatim>\<open>process.exit\<close>. Every
  such action is appended to a trace; what the outside answers is a parameter (a
  \<open>world\<close>), which may depend on everything that happened before.
\<close>

datatype Mode = Burning | Locking

text \<open>
  \<^verbatim>\<open>interface DeploymentConfig\<close>. The record is the run-time object: \<^verbatim>\<open>parseArgs\<close> builds
  it as \<^verbatim>\<open>Partial<DeploymentConfig>\<close>, where every field may be \<^verbatim>\<open>undefined\<close> (\<open>None\<close>),
  and returns the same object under a type cast.
\<close>

record DeploymentConfig =
  projectName :: "string option"
  baseToken :: "string option"
  solanaToken :: "string option"
  solanaPayer :: "string option"
  mode :: "Mode option"

text \<open>What \<^verbatim>\<open>execSync\<close> gives: the captured standard output, or an error carrying the
  exit status of the command (\<open>None\<close> when there is none, as for a killed child).\<close>

datatype exec_result = ExecOk string | ExecFail "nat option"

datatype js_error =
    ExecError string "nat option"  \<comment> \<open>thrown by \<^verbatim>\<open>execSync\<close>: the command, \<^verbatim>\<open>error.status\<close>\<close>
  | Error string                   \<comment> \<open>\<^verbatim>\<open>new Error(message)\<close>\<close>
  | FsError string                 \<comment> \<open>thrown by \<^verbatim>\<open>process.chdir\<close> or \<^verbatim>\<open>writeFileSync\<close>\<close>

datatype event =
    Exec string                    \<comment> \<open>\<^verbatim>\<open>execSync(command)\<close> was called\<close>
  | Chdir string                   \<comment> \<open>\<^verbatim>\<open>process.chdir(dir)\<close> was called\<close>
  | WriteFile string string        \<comment> \<open>\<^verbatim>\<open>writeFileSync(path, data)\<close> was called\<close>
  | Log string                     \<comment> \<open>\<^verbatim>\<open>console.log(text)\<close>\<close>
  | Err string                     \<comment> \<open>\<^verbatim>\<open>console.error(text)\<close>\<close>
  | ErrValue js_error              \<comment> \<open>\<^verbatim>\<open>console.error(error)\<close>\<close>
  | ErrFailed js_error             \<comment> \<open>\<^verbatim>\<open>console.error('Deployment failed:', error)\<close>\<close>

record world =
  existsSync :: "string \<Rightarrow> bool"
  run :: "event list \<Rightarrow> string \<Rightarrow> exec_result"
  chdirOk :: "event list \<Rightarrow> string \<Rightarrow> bool"
  writeOk :: "event list \<Rightarrow> string \<Rightarrow> string \<Rightarrow> bool"

text \<open>A call returns, throws, or ends the process with \<^verbatim>\<open>process.exit(n)\<close>.\<close>

datatype 'a outcome = Return 'a | Throw js_error | Exit nat

type_synonym 'a proc = "world \<Rightarrow> event list \<Rightarrow> 'a outcome \<times> event list"

definition ret :: "'a \<Rightarrow> 'a proc" where
  "ret x w t = (Return x, t)"

definition throw :: "js_error \<Rightarrow> 'a proc" where
  "throw e w t = (Throw e, t)"

definition processExit :: "nat \<Rightarrow> 'a proc" where
  "processExit n w t = (Exit n, t)"

definition bind_proc :: "'a proc \<Rightarrow> ('a \<Rightarrow> 'b proc) \<Rightarrow> 'b proc" where
  "bind_proc m k w t =
     (case m w t of
        (Return x, t') \<Rightarrow> k x w t'
      | (Throw e, t') \<Rightarrow> (Throw e, t')
      | (Exit n, t') \<Rightarrow> (Exit n, t'))"

definition then_proc :: "'a proc \<Rightarrow> 'b proc \<Rightarrow> 'b proc" where
  "then_proc m k = bind_proc m (\<lambda>_. k)"

text \<open>A block of statements, run in order.\<close>

fun block :: "unit proc list \<Rightarrow> unit proc" where
  "block [] = ret ()"
| "block (s # ss) = then_proc s (block ss)"

definition stmt :: "'a proc \<Rightarrow> unit proc" where
  "stmt m = bind_proc m (\<lambda>_. ret ())"

text \<open>\<^verbatim>\<open>try { m } catch (error) { h error }\<close>: only a throw reaches the handler;
  \<^verbatim>\<open>process.exit\<close> ends the process at once.\<close>

definition tryCatch :: "'a proc \<Rightarrow> (js_error \<Rightarrow> 'a proc) \<Rightarrow> 'a proc" where
  "tryCatch m h w t =
     (case m w t of
        (Throw e, t') \<Rightarrow> h e w t'
      | r \<Rightarrow> r)"

definition consoleLog :: "string \<Rightarrow> unit proc" where
  "consoleLog s w t = (Return (), t @ [Log s])"

definition consoleError :: "string \<Rightarrow> unit proc" where
  "consoleError s w t = (Return (), t @ [Err s])"

definition consoleErrorValue :: "js_error \<Rightarrow> unit proc" where
  "consoleErrorValue e w t = (Return (), t @ [ErrValue e])"

definition consoleErrorFailed :: "js_error \<Rightarrow> unit proc" where
  "consoleErrorFailed e w t = (Return (), t @ [ErrFailed e])"

definition execSync :: "string \<Rightarrow> string proc" where
  "execSync command w t =
     (case run w t command of
        ExecOk out \<Rightarrow> (Return out, t @ [Exec command])
      | ExecFail st \<Rightarrow> (Throw (ExecError command st), t @ [Exec command]))"

text \<open>A template literal prints \<^verbatim>\<open>undefined\<close> for a missing value.\<close>

definition jsStr :: "string option \<Rightarrow> string" where
  "jsStr v = (case v of None \<Rightarrow> ''undefined'' | Some s \<Rightarrow> s)"

definition processChdir :: "string option \<Rightarrow> unit proc" where
  "processChdir dir w t =
     (case dir of
        None \<Rightarrow> (Throw (FsError ''chdir''), t)
      | Some d \<Rightarrow>
          if chdirOk w t d then (Return (), t @ [Chdir d])
          else (Throw (FsError ''chdir''), t @ [Chdir d]))"

definition writeFileSync :: "string \<Rightarrow> string \<Rightarrow> unit proc" where
  "writeFileSync path data w t =
     (if writeOk w t path data then (Return (), t @ [WriteFile path data])
      else (Throw (FsError ''writeFileSync''), t @ [WriteFile path data]))"

definition newline :: char where
  "newline = CHR 0x0A"

definition backslash :: char where
  "backslash = CHR 0x5C"

section \<open>Constants and usage\<close>

record RpcEndpoints =
  Base :: string
  Solana :: string

record DefaultConfig =
  network :: string
  default_mode :: Mode
  rpcEndpoints :: RpcEndpoints

definition DEFAULT_CONFIG :: DefaultConfig where
  "DEFAULT_CONFIG =
     \<lparr> network = ''Testnet'',
       default_mode = Burning,
       rpcEndpoints =
         \<lparr> Base = ''https://sepolia.base.org'',
           Solana = ''https://api.devnet.solana.com'' \<rparr> \<rparr>"

definition usageText :: string where
  "usageText =
     concat (map (\<lambda>l. l @ [newline])
       [ '''',
         ''Usage: deploy-ntt [options]'',
         '''',
         ''Required:'',
         ''    --project-name      Name of the NTT project'',
         ''    --base-token       Base chain token address'',
         ''    --solana-token     Solana chain token address'',
         ''    --solana-payer     Path to Solana payer keypair file'',
         '''',
         ''Optional:'',
         ''    --mode             Token transfer mode (burning/locking) [default: burning]'',
         ''    -h, --help         Show this help message'',
         '''',
         ''Example:'',
         ''    deploy-ntt --project-name my-token-bridge '' @ [backslash],
         ''              --base-token 0x1234... '' @ [backslash],
         ''              --solana-token TokenkegQfeZyiNwAJbNbGKPFXCWuBvf9Ss623VQ5DA '' @ [backslash],
         ''              --solana-payer ~/.config/solana/id.json '' @ [backslash],
         ''              --mode locking'' ])
     @ ''  ''"

definition printUsage :: "unit proc" where
  "printUsage = then_proc (consoleLog usageText) (processExit 1)"

section \<open>The argument parser\<close>

text \<open>\<^verbatim>\<open>args[++i]\<close>: the next token, or \<^verbatim>\<open>undefined\<close> past the end.\<close>

definition nextArg :: "string list \<Rightarrow> string option" where
  "nextArg rest = (case rest of [] \<Rightarrow> None | v # _ \<Rightarrow> Some v)"

definition modeOfString :: "string option \<Rightarrow> Mode option" where
  "modeOfString v =
     (if v = Some ''burning'' then Some Burning
      else if v = Some ''locking'' then Some Locking
      else None)"

text \<open>The text \<^verbatim>\<open>Error: mode must be either 'burning' or 'locking'\<close>.\<close>

definition modeErrorText :: string where
  "modeErrorText =
     ''Error: mode must be either '' @ [CHR 0x27] @ ''burning'' @ [CHR 0x27]
       @ '' or '' @ [CHR 0x27] @ ''locking'' @ [CHR 0x27]"

text \<open>
  The scanning loop \<^verbatim>\<open>for (let i = 0; i < args.length; i++) switch (args[i])\<close>. The list
  is what is left from index \<open>i\<close> on; a value flag steps over its value (\<open>drop 1\<close>).
  After \<^verbatim>\<open>printUsage()\<close> the source goes on with the loop, which is never reached
  since \<^verbatim>\<open>printUsage\<close> exits.
\<close>

fun scanArgs :: "string list \<Rightarrow> DeploymentConfig \<Rightarrow> DeploymentConfig proc" where
  "scanArgs [] config = ret config"
| "scanArgs (a # rest) config =
     (if a = ''--project-name'' then
        scanArgs (drop 1 rest) (config\<lparr>projectName := nextArg rest\<rparr>)
      else if a = ''--base-token'' then
        scanArgs (drop 1 rest) (config\<lparr>baseToken := nextArg rest\<rparr>)
      else if a = ''--solana-token'' then
        scanArgs (drop 1 rest) (config\<lparr>solanaToken := nextArg rest\<rparr>)
      else if a = ''--solana-payer'' then
        scanArgs (drop 1 rest) (config\<lparr>solanaPayer := nextArg rest\<rparr>)
      else if a = ''--mode'' then
        (if nextArg rest \<noteq> Some ''burning'' \<and> nextArg rest \<noteq> Some ''locking'' then
           then_proc (consoleError modeErrorText) (processExit 1)
         else scanArgs (drop 1 rest) (config\<lparr>mode := modeOfString (nextArg rest)\<rparr>))
      else if a = ''-h'' \<or> a = ''--help'' then
        then_proc printUsage (scanArgs rest config)
      else
        then_proc (consoleError (''Unknown option: '' @ a))
          (then_proc printUsage (scanArgs rest config)))"

definition requiredParams :: "string list" where
  "requiredParams = [''projectName'', ''baseToken'', ''solanaToken'', ''solanaPayer'']"

text \<open>\<^verbatim>\<open>config[param]\<close> for the names of \<open>requiredParams\<close>.\<close>

definition getParam :: "DeploymentConfig \<Rightarrow> string \<Rightarrow> string option" where
  "getParam config param =
     (if param = ''projectName'' then projectName config
      else if param = ''baseToken'' then baseToken config
      else if param = ''solanaToken'' then solanaToken config
      else if param = ''solanaPayer'' then solanaPayer config
      else None)"

text \<open>\<^verbatim>\<open>!v\<close> for a string or \<^verbatim>\<open>undefined\<close>: true for \<^verbatim>\<open>undefined\<close> and for the empty string.\<close>

definition falsy :: "string option \<Rightarrow> bool" where
  "falsy v = (case v of None \<Rightarrow> True | Some s \<Rightarrow> s = [])"

text \<open>\<^verbatim>\<open>param.replace(/[A-Z]/g, c => `-${c.toLowerCase()}`)\<close>\<close>

definition isUpperAZ :: "char \<Rightarrow> bool" where
  "isUpperAZ c = (65 \<le> (of_char c :: nat) \<and> (of_char c :: nat) \<le> 90)"

definition toLowerCase :: "char \<Rightarrow> char" where
  "toLowerCase c = (if isUpperAZ c then char_of ((of_char c :: nat) + 32) else c)"

definition dashCase :: "string \<Rightarrow> string" where
  "dashCase param =
     concat (map (\<lambda>c. if isUpperAZ c then [CHR ''-'', toLowerCase c] else [c]) param)"

fun checkRequired :: "string list \<Rightarrow> DeploymentConfig \<Rightarrow> unit proc" where
  "checkRequired [] config = ret ()"
| "checkRequired (param # params) config =
     then_proc
       (if falsy (getParam config param) then
          then_proc
            (consoleError (''Error: Missing required parameter --'' @ dashCase param))
            printUsage
        else ret ())
       (checkRequired params config)"

text \<open>The first of the required parameters that \<open>config\<close> lacks, if any.\<close>

definition firstMissing :: "DeploymentConfig \<Rightarrow> string option" where
  "firstMissing config = List.find (\<lambda>param. falsy (getParam config param)) requiredParams"

text \<open>\<^verbatim>\<open>existsSync\<close> answers false for a path that is not a string.\<close>

definition checkPayer :: "DeploymentConfig \<Rightarrow> unit proc" where
  "checkPayer config w t =
     (if \<not> (case solanaPayer config of None \<Rightarrow> False | Some p \<Rightarrow> existsSync w p) then
        then_proc
          (consoleError (''Error: Solana payer file not found: '' @ jsStr (solanaPayer config)))
          (processExit 1) w t
      else ret () w t)"

definition emptyConfig :: DeploymentConfig where
  "emptyConfig =
     \<lparr> projectName = None, baseToken = None, solanaToken = None,
       solanaPayer = None, mode = None \<rparr>"

text \<open>\<open>argv\<close> is \<^verbatim>\<open>process.argv\<close>: the interpreter, the script, then the arguments.\<close>

definition parseArgs :: "string list \<Rightarrow> DeploymentConfig proc" where
  "parseArgs argv =
     bind_proc (scanArgs (drop 2 argv) emptyConfig) (\<lambda>config.
       then_proc (checkRequired requiredParams config)
         (then_proc (checkPayer config)
           (ret config)))"

section \<open>The prerequisite checker\<close>

definition checkPrerequisites :: "unit proc" where
  "checkPrerequisites =
     tryCatch
       (block
         [ stmt (execSync ''which solana''),
           stmt (execSync ''which spl-token''),
           stmt (execSync ''which anchor''),
           stmt (execSync ''which forge''),
           stmt (execSync ''which ntt'') ])
       (\<lambda>error. block
         [ consoleError ''Missing required tools. Please install:'',
           consoleError ''- Solana CLI tools (solana, spl-token)'',
           consoleError ''- Anchor (https://www.anchor-lang.com/docs/installation)'',
           consoleError
             ''- Foundry (forge) (https://book.getfoundry.sh/getting-started/installation)'',
           consoleError
             ''- NTT CLI (https://wormhole.com/docs/build/contract-integrations/native-token-transfers/deployment-process/install-cli)'',
           processExit 1 ])"

section \<open>String operations of the language\<close>

text \<open>
  Characters are code units below 256. \<^verbatim>\<open>String.prototype.trim\<close> removes white space
  and line terminators at both ends; below 256 these are the codes 9 to 13, 32 and 160.
\<close>

definition isWhiteSpace :: "char \<Rightarrow> bool" where
  "isWhiteSpace c = ((of_char c :: nat) \<in> {9, 10, 11, 12, 13, 32, 160})"

definition trim :: "string \<Rightarrow> string" where
  "trim s = rev (dropWhile isWhiteSpace (rev (dropWhile isWhiteSpace s)))"

text \<open>\<^verbatim>\<open>s.split(sep)\<close> for a separator of one character: the empty string gives one
  empty piece.\<close>

fun split :: "char \<Rightarrow> string \<Rightarrow> string list" where
  "split sep [] = [[]]"
| "split sep (c # cs) =
     (if c = sep then [] # split sep cs
      else (case split sep cs of
              [] \<Rightarrow> [[c]]
            | piece # pieces \<Rightarrow> (c # piece) # pieces))"

text \<open>\<^verbatim>\<open>s.slice(0, end)\<close>: a negative \<open>end\<close> counts from the end of the string.\<close>

definition slice0 :: "string \<Rightarrow> int \<Rightarrow> string" where
  "slice0 s e =
     (let len = int (length s);
          to = (if e < 0 then max (len + e) 0 else min e len)
      in take (nat to) s)"

text \<open>
  The value of a single-quoted string literal, from the characters between its quotes:
  a backslash before \<open>n\<close>, \<open>t\<close>, \<open>r\<close>, \<open>b\<close>, \<open>f\<close>, \<open>v\<close> or \<open>0\<close> gives the control character,
  and before any other character it is dropped and the character stands for itself
  (the escapes with \<open>x\<close> and \<open>u\<close> and line continuations are not modelled; the script has
  none in a quoted literal).
\<close>

definition escapeValue :: "char \<Rightarrow> char" where
  "escapeValue c =
     (if c = CHR ''n'' then CHR 0x0A
      else if c = CHR ''t'' then CHR 0x09
      else if c = CHR ''r'' then CHR 0x0D
      else if c = CHR ''b'' then CHR 0x08
      else if c = CHR ''f'' then CHR 0x0C
      else if c = CHR ''v'' then CHR 0x0B
      else if c = CHR ''0'' then CHR 0x00
      else c)"

fun literalValue :: "bool \<Rightarrow> string \<Rightarrow> string" where
  "literalValue escaped [] = []"
| "literalValue escaped (c # cs) =
     (if escaped then escapeValue c # literalValue False cs
      else if c = backslash then literalValue True cs
      else c # literalValue False cs)"

section \<open>The keypair locator\<close>

text \<open>The characters between the quotes of the literal that \<^verbatim>\<open>findNttKeypairFile\<close> passes
  to \<^verbatim>\<open>execSync\<close>, as the source has them: there is a backslash before \<^verbatim>\<open>.json\<close>.\<close>

definition findCommandSource :: string where
  \<open>findCommandSource = ''ls -1 | grep -i "^ntt.*'' @ [backslash] @ ''.json$"''\<close>

definition findCommand :: string where
  "findCommand = literalValue False findCommandSource"

definition notFoundText :: string where
  "notFoundText = ''No NTT keypair file found in current directory''"

definition multipleText :: string where
  "multipleText = ''Multiple NTT keypair files found. Please ensure only one exists.''"

text \<open>\<^verbatim>\<open>(error as any).status\<close>: only the error of \<^verbatim>\<open>execSync\<close> has the field.\<close>

definition errorStatus :: "js_error \<Rightarrow> nat option" where
  "errorStatus e = (case e of ExecError _ st \<Rightarrow> st | Error _ \<Rightarrow> None | FsError _ \<Rightarrow> None)"

text \<open>The test \<^verbatim>\<open>!files\<close> of the source is false for every array and is left out.\<close>

definition findNttKeypairFile :: "string proc" where
  "findNttKeypairFile =
     tryCatch
       (bind_proc (execSync findCommand) (\<lambda>output.
          let files = split newline (trim output) in
          if length files = 0 \<or> (length files = 1 \<and> files ! 0 = []) then
            throw (Error notFoundText)
          else if length files > 1 then
            throw (Error multipleText)
          else ret (files ! 0)))
       (\<lambda>error.
          if errorStatus error = Some 1 then throw (Error notFoundText)
          else throw error)"

section \<open>The orchestrator\<close>

definition modeString :: "Mode \<Rightarrow> string" where
  "modeString m = (case m of Burning \<Rightarrow> ''burning'' | Locking \<Rightarrow> ''locking'')"

definition keygenCommand :: string where
  "keygenCommand = ''solana-keygen grind --starts-with ntt:1 --ignore-case''"

definition prepareSolanaDeployment :: "DeploymentConfig \<Rightarrow> unit proc" where
  "prepareSolanaDeployment config =
     (if mode config = Some Burning then
        block
          [ consoleLog ''Generating program keypair for burning mode...'',
            stmt (execSync keygenCommand),
            bind_proc findNttKeypairFile (\<lambda>programKeypairFile.
              then_proc (consoleLog (''Program keypair file: '' @ programKeypairFile))
                (bind_proc (execSync (''ntt solana token-authority '' @ programKeypairFile))
                  (\<lambda>out.
                    let tokenAuthorityPDA = slice0 (trim out) (- 4) in
                    block
                      [ consoleLog ''Setting mint authority...'',
                        stmt (execSync
                          (''spl-token authorize '' @ jsStr (solanaToken config)
                             @ '' mint '' @ tokenAuthorityPDA)) ]))) ]
      else ret ())"

subsection \<open>\<^verbatim>\<open>JSON.stringify(value, null, 2)\<close> on objects and strings\<close>

datatype json = JString string | JObject "(string \<times> json) list"

definition hexDigit :: "nat \<Rightarrow> char" where
  "hexDigit n = ''0123456789abcdef'' ! (n mod 16)"

definition quoteChar :: "char \<Rightarrow> string" where
  "quoteChar c =
     (if c = CHR 0x22 then [backslash, CHR 0x22]
      else if c = backslash then [backslash, backslash]
      else if c = CHR 0x08 then [backslash, CHR ''b'']
      else if c = CHR 0x0C then [backslash, CHR ''f'']
      else if c = CHR 0x0A then [backslash, CHR ''n'']
      else if c = CHR 0x0D then [backslash, CHR ''r'']
      else if c = CHR 0x09 then [backslash, CHR ''t'']
      else if (of_char c :: nat) < 32 then
        [backslash, CHR ''u'', CHR ''0'', CHR ''0'',
         hexDigit ((of_char c :: nat) div 16), hexDigit (of_char c :: nat)]
      else [c])"

definition quoteJSON :: "string \<Rightarrow> string" where
  "quoteJSON s = [CHR 0x22] @ concat (map quoteChar s) @ [CHR 0x22]"

text \<open>\<open>joinLines\<close> is \<^verbatim>\<open>parts.join(",\n")\<close>.\<close>

fun joinLines :: "string list \<Rightarrow> string" where
  "joinLines [] = []"
| "joinLines [p] = p"
| "joinLines (p # ps) = p @ '','' @ [newline] @ joinLines ps"

text \<open>\<open>ind\<close> is the indentation of the enclosing level, in spaces; the gap is two spaces.\<close>

fun stringify :: "nat \<Rightarrow> json \<Rightarrow> string"
  and stringifyMembers :: "nat \<Rightarrow> (string \<times> json) list \<Rightarrow> string list" where
  "stringify ind (JString s) = quoteJSON s"
| "stringify ind (JObject members) =
     (if members = [] then ''{}''
      else ''{'' @ [newline] @ joinLines (stringifyMembers (ind + 2) members)
             @ [newline] @ replicate ind (CHR '' '') @ ''}'')"
| "stringifyMembers ind [] = []"
| "stringifyMembers ind ((k, v) # members) =
     (replicate ind (CHR '' '') @ quoteJSON k @ '': '' @ stringify ind v)
       # stringifyMembers ind members"

definition overrides :: json where
  "overrides =
     JObject
       [ (''chains'',
          JObject
            [ (''Base'', JObject [(''rpc'', JString (Base (rpcEndpoints DEFAULT_CONFIG)))]),
              (''Solana'', JObject [(''rpc'', JString (Solana (rpcEndpoints DEFAULT_CONFIG)))])
            ]) ]"

subsection \<open>\<^verbatim>\<open>deployNTT\<close> and the main block\<close>

text \<open>The default of \<open>mode\<close> is applied where \<^verbatim>\<open>deployNTT\<close> destructures its argument;
  \<^verbatim>\<open>prepareSolanaDeployment\<close> receives \<open>config\<close> itself.\<close>

definition deployNTT :: "DeploymentConfig \<Rightarrow> unit proc" where
  "deployNTT config =
     (let mode' = (case mode config of None \<Rightarrow> default_mode DEFAULT_CONFIG | Some m \<Rightarrow> m) in
      block
        [ checkPrerequisites,
          consoleLog (''Creating new NTT project: '' @ jsStr (projectName config)),
          stmt (execSync (''ntt new '' @ jsStr (projectName config))),
          processChdir (projectName config),
          consoleLog (''Initializing project for '' @ network DEFAULT_CONFIG),
          stmt (execSync (''ntt init '' @ network DEFAULT_CONFIG)),
          writeFileSync ''overrides.json'' (stringify 0 overrides),
          prepareSolanaDeployment config,
          consoleLog ''Adding Solana chain...'',
          stmt (execSync
            (''ntt add-chain Solana --token '' @ jsStr (solanaToken config)
               @ '' --mode '' @ modeString mode'
               @ '' --latest --payer '' @ jsStr (solanaPayer config))),
          consoleLog ''Adding Base chain...'',
          stmt (execSync
            (''ntt add-chain Base --token '' @ jsStr (baseToken config)
               @ '' --mode '' @ modeString mode' @ '' --latest --skip-verify'')),
          consoleLog ''Pushing configuration...'',
          stmt (execSync (''ntt push --yes --payer '' @ jsStr (solanaPayer config))),
          consoleLog ''Deployment complete! Configuration saved in deployment.json'',
          bind_proc (execSync ''cat deployment.json'') (\<lambda>deploymentJson.
            consoleLog deploymentJson) ])"

text \<open>
  \<^verbatim>\<open>deployNTT\<close> is an \<^verbatim>\<open>async\<close> function: whatever it throws rejects the promise it
  returns, and \<^verbatim>\<open>.catch(handler)\<close> runs the handler on the rejection. Nothing it throws
  reaches the \<^verbatim>\<open>catch\<close> block around the call.
\<close>

definition promiseCatch :: "unit proc \<Rightarrow> (js_error \<Rightarrow> unit proc) \<Rightarrow> unit proc" where
  "promiseCatch m h w t =
     (case m w t of
        (Throw e, t') \<Rightarrow> h e w t'
      | r \<Rightarrow> r)"

text \<open>
  The main block; the result is the exit status of the process and the trace. A process
  that runs to its end exits with status 0, one ended by an uncaught error with status 1.
\<close>

definition main :: "string list \<Rightarrow> world \<Rightarrow> nat \<times> event list" where
  "main argv w =
     (case tryCatch
             (bind_proc (parseArgs argv) (\<lambda>config.
                promiseCatch (deployNTT config) consoleErrorValue))
             (\<lambda>error. then_proc (consoleErrorFailed error) (processExit 1))
             w []
      of (Return _, t) \<Rightarrow> (0, t)
       | (Exit n, t) \<Rightarrow> (n, t)
       | (Throw e, t) \<Rightarrow> (1, t))"

subsection \<open>The revision \<^verbatim>\<open>src/src/deploy-ntt.ts\<close>\<close>

text \<open>
  Its \<^verbatim>\<open>deployNTT\<close> has neither the call of \<^verbatim>\<open>checkPrerequisites\<close> nor that of
  \<^verbatim>\<open>prepareSolanaDeployment\<close>; its main block is the same text over this function.
\<close>

definition deployNTT_src :: "DeploymentConfig \<Rightarrow> unit proc" where
  "deployNTT_src config =
     (let mode' = (case mode config of None \<Rightarrow> default_mode DEFAULT_CONFIG | Some m \<Rightarrow> m) in
      block
        [ consoleLog (''Creating new NTT project: '' @ jsStr (projectName config)),
          stmt (execSync (''ntt new '' @ jsStr (projectName config))),
          processChdir (projectName config),
          consoleLog (''Initializing project for '' @ network DEFAULT_CONFIG),
          stmt (execSync (''ntt init '' @ network DEFAULT_CONFIG)),
          writeFileSync ''overrides.json'' (stringify 0 overrides),
          consoleLog ''Adding Solana chain...'',
          stmt (execSync
            (''ntt add-chain Solana --token '' @ jsStr (solanaToken config)
               @ '' --mode '' @ modeString mode'
               @ '' --latest --payer '' @ jsStr (solanaPayer config))),
          consoleLog ''Adding Base chain...'',
          stmt (execSync
            (''ntt add-chain Base --token '' @ jsStr (baseToken config)
               @ '' --mode '' @ modeString mode' @ '' --latest --skip-verify'')),
          consoleLog ''Pushing configuration...'',
          stmt (execSync (''ntt push --yes --payer '' @ jsStr (solanaPayer config))),
          consoleLog ''Deployment complete! Configuration saved in deployment.json'',
          bind_proc (execSync ''cat deployment.json'') (\<lambda>deploymentJson.
            consoleLog deploymentJson) ])"

definition main_src :: "string list \<Rightarrow> world \<Rightarrow> nat \<times> event list" where
  "main_src argv w =
     (case tryCatch
             (bind_proc (parseArgs argv) (\<lambda>config.
                promiseCatch (deployNTT_src config) consoleErrorValue))
             (\<lambda>error. then_proc (consoleErrorFailed error) (processExit 1))
             w []
      of (Return _, t) \<Rightarrow> (0, t)
       | (Exit n, t) \<Rightarrow> (n, t)
       | (Throw e, t) \<Rightarrow> (1, t))"

section \<open>The tools behind the keypair locator\<close>

text \<open>
  \<^verbatim>\<open>findNttKeypairFile\<close> leaves the choice of the file names to the pipeline of
  \<open>findCommand\<close>, run by the shell. The pipeline is not code of the repository; what
  follows describes it as far as the locator depends on it: \<^verbatim>\<open>ls -1\<close> prints the entries
  of the working directory that are not hidden, one to a line; \<^verbatim>\<open>grep -i\<close> prints the
  lines on which its pattern, a basic regular expression, matches without regard to
  case, and exits with status 1 when there is none; the status of a pipeline is that of
  its last command. The pattern is the word between the double quotes of the command
  (inside double quotes a dollar sign before the closing quote stands for itself).
\<close>

datatype atom = AnyChar | Lit char

datatype item = One atom | Star atom

datatype tok = TAtom atom | TStar | TCaret | TDollar

text \<open>In a basic regular expression a backslash makes the next character literal,
  a period matches any character, a star repeats the atom before it.\<close>

fun breTokens :: "bool \<Rightarrow> string \<Rightarrow> tok list" where
  "breTokens escaped [] = []"
| "breTokens escaped (c # cs) =
     (if escaped then TAtom (Lit c) # breTokens False cs
      else if c = backslash then breTokens True cs
      else if c = CHR ''.'' then TAtom AnyChar # breTokens False cs
      else if c = CHR ''*'' then TStar # breTokens False cs
      else if c = CHR ''^'' then TCaret # breTokens False cs
      else if c = CHR ''$'' then TDollar # breTokens False cs
      else TAtom (Lit c) # breTokens False cs)"

fun breItems :: "tok list \<Rightarrow> item list" where
  "breItems [] = []"
| "breItems (TAtom a # TStar # ts) = Star a # breItems ts"
| "breItems (TAtom a # ts) = One a # breItems ts"
| "breItems (TStar # ts) = One (Lit (CHR ''*'')) # breItems ts"
| "breItems (TCaret # ts) = One (Lit (CHR ''^'')) # breItems ts"
| "breItems (TDollar # ts) = One (Lit (CHR ''$'')) # breItems ts"

record bre =
  fromStart :: bool
  body :: "item list"
  toEnd :: bool

definition parseBre :: "string \<Rightarrow> bre" where
  "parseBre pattern =
     (let ts = breTokens False pattern;
          anchoredStart = (ts \<noteq> [] \<and> hd ts = TCaret);
          ts1 = (if anchoredStart then tl ts else ts);
          anchoredEnd = (ts1 \<noteq> [] \<and> last ts1 = TDollar);
          ts2 = (if anchoredEnd then butlast ts1 else ts1)
      in \<lparr> fromStart = anchoredStart, body = breItems ts2, toEnd = anchoredEnd \<rparr>)"

text \<open>With \<^verbatim>\<open>-i\<close> a literal matches both cases of its letter.\<close>

definition atomMatches :: "atom \<Rightarrow> char \<Rightarrow> bool" where
  "atomMatches a c = (case a of AnyChar \<Rightarrow> True | Lit l \<Rightarrow> toLowerCase l = toLowerCase c)"

text \<open>\<open>matchHere items e s\<close>: the items match a prefix of \<open>s\<close>, and all of \<open>s\<close> when \<open>e\<close> holds.\<close>

fun matchHere :: "item list \<Rightarrow> bool \<Rightarrow> string \<Rightarrow> bool" where
  "matchHere [] e s = (\<not> e \<or> s = [])"
| "matchHere (One a # items) e [] = False"
| "matchHere (One a # items) e (c # cs) = (atomMatches a c \<and> matchHere items e cs)"
| "matchHere (Star a # items) e [] = matchHere items e []"
| "matchHere (Star a # items) e (c # cs) =
     (matchHere items e (c # cs) \<or> (atomMatches a c \<and> matchHere (Star a # items) e cs))"

definition matchLine :: "bre \<Rightarrow> string \<Rightarrow> bool" where
  "matchLine re line =
     (if fromStart re then matchHere (body re) (toEnd re) line
      else list_ex (matchHere (body re) (toEnd re)) (suffixes line))"

text \<open>The lines of a text: a newline at its end does not begin another line.\<close>

definition textLines :: "string \<Rightarrow> string list" where
  "textLines s = (let pieces = split newline s in
                  if last pieces = [] then butlast pieces else pieces)"

definition grep :: "bre \<Rightarrow> string \<Rightarrow> exec_result" where
  "grep re input =
     (let matching = filter (matchLine re) (textLines input) in
      if matching = [] then ExecFail (Some 1)
      else ExecOk (concat (map (\<lambda>l. l @ [newline]) matching)))"

definition ls1 :: "string list \<Rightarrow> string" where
  "ls1 entries =
     concat (map (\<lambda>n. n @ [newline]) (filter (\<lambda>n. \<not> prefix ''.'' n) entries))"

definition grepPattern :: string where
  "grepPattern = takeWhile (\<lambda>c. c \<noteq> CHR 0x22) (drop 1 (dropWhile (\<lambda>c. c \<noteq> CHR 0x22) findCommand))"

text \<open>What the pipeline of \<open>findCommand\<close> gives in a directory with these entries.\<close>

definition lsGrep :: "string list \<Rightarrow> exec_result" where
  "lsGrep entries = grep (parseBre grepPattern) (ls1 entries)"

text \<open>The lines of the listing that the filter lets through.\<close>

definition matchingLines :: "string list \<Rightarrow> string list" where
  "matchingLines entries = filter (matchLine (parseBre grepPattern)) (textLines (ls1 entries))"

text \<open>The shape the specification gives for the name of a keypair file: it starts with
  \<^verbatim>\<open>ntt\<close> and ends with \<^verbatim>\<open>.json\<close>, without regard to case.\<close>

definition nttJsonName :: "string \<Rightarrow> bool" where
  "nttJsonName name =
     (prefix ''ntt'' (map toLowerCase name) \<and> suffix ''.json'' (map toLowerCase name))"

section \<open>Reading a trace\<close>

fun commands :: "event list \<Rightarrow> string list" where
  "commands [] = []"
| "commands (Exec c # t) = c # commands t"
| "commands (e # t) = commands t"

text \<open>The changes of directory and the files written.\<close>

fun fileOps :: "event list \<Rightarrow> event list" where
  "fileOps [] = []"
| "fileOps (Chdir dir # t) = Chdir dir # fileOps t"
| "fileOps (WriteFile path data # t) = WriteFile path data # fileOps t"
| "fileOps (e # t) = fileOps t"

definition probes :: "string list" where
  "probes = [''which solana'', ''which spl-token'', ''which anchor'', ''which forge'', ''which ntt'']"

definition remediation :: "event list" where
  "remediation =
     [ Err ''Missing required tools. Please install:'',
       Err ''- Solana CLI tools (solana, spl-token)'',
       Err ''- Anchor (https://www.anchor-lang.com/docs/installation)'',
       Err ''- Foundry (forge) (https://book.getfoundry.sh/getting-started/installation)'',
       Err ''- NTT CLI (https://wormhole.com/docs/build/contract-integrations/native-token-transfers/deployment-process/install-cli)'' ]"

text \<open>Every command of the list succeeds when run in this order after the trace \<open>t\<close>.\<close>

fun allSucceed :: "world \<Rightarrow> event list \<Rightarrow> string list \<Rightarrow> bool" where
  "allSucceed w t [] = True"
| "allSucceed w t (c # cs) =
     (case run w t c of ExecOk _ \<Rightarrow> allSucceed w (t @ [Exec c]) cs | ExecFail _ \<Rightarrow> False)"

text \<open>The commands of the list that are called when they are run in this order after
  the trace \<open>t\<close> and the first failure ends the sequence.\<close>

fun attempted :: "world \<Rightarrow> event list \<Rightarrow> string list \<Rightarrow> string list" where
  "attempted w t [] = []"
| "attempted w t (c # cs) =
     c # (case run w t c of ExecOk _ \<Rightarrow> attempted w (t @ [Exec c]) cs | ExecFail _ \<Rightarrow> [])"

text \<open>
  \<open>follows w proj m plan\<close>: in the world \<open>w\<close> a run of \<open>m\<close> only adds to the trace; what
  it adds, seen through \<open>proj\<close> (the commands, or the file operations), is an initial part
  of \<open>plan\<close>, and all of \<open>plan\<close> when \<open>m\<close> returns.
\<close>

definition follows :: "world \<Rightarrow> (event list \<Rightarrow> 'b list) \<Rightarrow> 'a proc \<Rightarrow> 'b list \<Rightarrow> bool" where
  "follows w proj m plan =
     (\<forall>t. \<exists>r evs. m w t = (r, t @ evs) \<and> prefix (proj evs) plan
        \<and> ((\<exists>x. r = Return x) \<longrightarrow> proj evs = plan))"

text \<open>The commands that \<^verbatim>\<open>deployNTT\<close> calls one after the other, those of
  \<^verbatim>\<open>prepareSolanaDeployment\<close> left out, when \<open>m\<close> is the mode after the default.\<close>

definition directPlan :: "DeploymentConfig \<Rightarrow> Mode \<Rightarrow> string list" where
  "directPlan config m =
     probes @
     [ ''ntt new '' @ jsStr (projectName config),
       ''ntt init Testnet'',
       ''ntt add-chain Solana --token '' @ jsStr (solanaToken config) @ '' --mode ''
         @ modeString m @ '' --latest --payer '' @ jsStr (solanaPayer config),
       ''ntt add-chain Base --token '' @ jsStr (baseToken config) @ '' --mode ''
         @ modeString m @ '' --latest --skip-verify'',
       ''ntt push --yes --payer '' @ jsStr (solanaPayer config),
       ''cat deployment.json'' ]"





text \<open>Two configurations that the test \<^verbatim>\<open>!config[param]\<close> cannot tell apart: each of the
  required fields is the same in both, or is empty or missing in both.\<close>

definition alike :: "DeploymentConfig \<Rightarrow> DeploymentConfig \<Rightarrow> bool" where
  "alike c d =
     (mode c = mode d
      \<and> (projectName c = projectName d \<or> (falsy (projectName c) \<and> falsy (projectName d)))
      \<and> (baseToken c = baseToken d \<or> (falsy (baseToken c) \<and> falsy (baseToken d)))
      \<and> (solanaToken c = solanaToken d \<or> (falsy (solanaToken c) \<and> falsy (solanaToken d)))
      \<and> (solanaPayer c = solanaPayer d \<or> (falsy (solanaPayer c) \<and> falsy (solanaPayer d))))"

text \<open>The text that \<^verbatim>\<open>JSON.stringify(overrides, null, 2)\<close> is claimed to be.\<close>

definition overridesText :: string where
  \<open>overridesText =
     ''{'' @ [newline] @
     ''  "chains": {'' @ [newline] @
     ''    "Base": {'' @ [newline] @
     ''      "rpc": "https://sepolia.base.org"'' @ [newline] @
     ''    },'' @ [newline] @
     ''    "Solana": {'' @ [newline] @
     ''      "rpc": "https://api.devnet.solana.com"'' @ [newline] @
     ''    }'' @ [newline] @
     ''  }'' @ [newline] @
     ''}''\<close>

text \<open>Worlds for the examples: every command succeeds and prints \<open>out\<close>, the payer
  file \<^verbatim>\<open>./payer.json\<close> exists; in the second one \<^verbatim>\<open>ntt new demo\<close> exits with status 1.\<close>

definition calmWorld :: "string \<Rightarrow> world" where
  "calmWorld out =
     \<lparr> existsSync = (\<lambda>p. p = ''./payer.json''),
       run = (\<lambda>t c. ExecOk out),
       chdirOk = (\<lambda>t d. True),
       writeOk = (\<lambda>t p d. True) \<rparr>"

definition failingWorld :: world where
  "failingWorld =
     \<lparr> existsSync = (\<lambda>p. p = ''./payer.json''),
       run = (\<lambda>t c. if c = ''ntt new demo'' then ExecFail (Some 1) else ExecOk ''''),
       chdirOk = (\<lambda>t d. True),
       writeOk = (\<lambda>t p d. True) \<rparr>"

text \<open>A world without \<^verbatim>\<open>anchor\<close>: the probe for it exits with status 1.\<close>

definition noAnchorWorld :: world where
  "noAnchorWorld =
     \<lparr> existsSync = (\<lambda>p. p = ''./payer.json''),
       run = (\<lambda>t c. if c = ''which anchor'' then ExecFail (Some 1) else ExecOk []),
       chdirOk = (\<lambda>t d. True),
       writeOk = (\<lambda>t p d. True) \<rparr>"

text \<open>A world whose working directory holds the given entries whenever it is listed.\<close>

definition dirWorld :: "string list \<Rightarrow> world" where
  "dirWorld entries =
     \<lparr> existsSync = (\<lambda>p. p = ''./payer.json''),
       run = (\<lambda>t c. if c = findCommand then lsGrep entries else ExecOk ''AuthorityPDA1234''),
       chdirOk = (\<lambda>t d. True),
       writeOk = (\<lambda>t p d. True) \<rparr>"

text \<open>The configuration that \<^verbatim>\<open>parseArgs\<close> returns for \<open>demoArgv\<close> below.\<close>

definition demoConfig :: DeploymentConfig where
  "demoConfig =
     \<lparr> projectName = Some ''demo'', baseToken = Some ''0xAAA'',
       solanaToken = Some ''TokenkegQfeZyiNwAJbNbGKPFXCWuBvf9Ss623VQ5DA'',
       solanaPayer = Some ''./payer.json'', mode = None \<rparr>"

definition demoArgv :: "string list" where
  "demoArgv =
     [ ''bun'', ''deploy-ntt.ts'',
       ''--project-name'', ''demo'',
       ''--base-token'', ''0xAAA'',
       ''--solana-token'', ''TokenkegQfeZyiNwAJbNbGKPFXCWuBvf9Ss623VQ5DA'',
       ''--solana-payer'', ''./payer.json'' ]"

section \<open>Running the combinators\<close>

lemmas proc_defs =
  bind_proc_def then_proc_def stmt_def ret_def throw_def processExit_def tryCatch_def
  promiseCatch_def consoleLog_def consoleError_def consoleErrorValue_def
  consoleErrorFailed_def execSync_def processChdir_def writeFileSync_def

lemma commands_append: "commands (t @ u) = commands t @ commands u"
  by (induction t rule: commands.induct) simp_all

lemma fileOps_append: "fileOps (t @ u) = fileOps t @ fileOps u"
  by (induction t rule: fileOps.induct) simp_all

lemma printUsage_run: "printUsage w t = (Exit 1, t @ [Log usageText])"
  by (simp add: printUsage_def proc_defs)

lemma scanArgs_step:
  "(\<exists>config'. (\<forall>w t. scanArgs (a # rest) config w t = scanArgs (drop 1 rest) config' w t)
       \<and> (a \<noteq> ''--project-name'' \<longrightarrow> projectName config' = projectName config)
       \<and> (a \<noteq> ''--base-token'' \<longrightarrow> baseToken config' = baseToken config)
       \<and> (a \<noteq> ''--solana-token'' \<longrightarrow> solanaToken config' = solanaToken config)
       \<and> (a \<noteq> ''--solana-payer'' \<longrightarrow> solanaPayer config' = solanaPayer config)
       \<and> (a \<noteq> ''--mode'' \<longrightarrow> mode config' = mode config))
   \<or> (\<exists>evs. (\<forall>w t. scanArgs (a # rest) config w t = (Exit 1, t @ evs)) \<and> commands evs = [])"
proof -
  consider (pn) "a = ''--project-name''" | (bt) "a = ''--base-token''"
    | (st) "a = ''--solana-token''" | (sp) "a = ''--solana-payer''"
    | (mode_ok) "a = ''--mode''" and "nextArg rest = Some ''burning'' \<or> nextArg rest = Some ''locking''"
    | (mode_bad) "a = ''--mode''" and "nextArg rest \<noteq> Some ''burning''" and "nextArg rest \<noteq> Some ''locking''"
    | (usage) "a = ''-h'' \<or> a = ''--help''"
    | (other) "a \<noteq> ''--project-name''" and "a \<noteq> ''--base-token''" and "a \<noteq> ''--solana-token''"
        and "a \<noteq> ''--solana-payer''" and "a \<noteq> ''--mode''" and "a \<noteq> ''-h''" and "a \<noteq> ''--help''"
    by blast
  then show ?thesis
  proof cases
    case pn
    show ?thesis
      by (rule disjI1, rule exI [of _ "config\<lparr>projectName := nextArg rest\<rparr>"]) (simp add: pn)
  next
    case bt
    show ?thesis
      by (rule disjI1, rule exI [of _ "config\<lparr>baseToken := nextArg rest\<rparr>"]) (simp add: bt)
  next
    case st
    show ?thesis
      by (rule disjI1, rule exI [of _ "config\<lparr>solanaToken := nextArg rest\<rparr>"]) (simp add: st)
  next
    case sp
    show ?thesis
      by (rule disjI1, rule exI [of _ "config\<lparr>solanaPayer := nextArg rest\<rparr>"]) (simp add: sp)
  next
    case mode_ok
    show ?thesis
      using mode_ok(2)
      by (intro disjI1 exI [of _ "config\<lparr>mode := modeOfString (nextArg rest)\<rparr>"])
        (auto simp add: mode_ok(1))
  next
    case mode_bad
    show ?thesis
      by (rule disjI2, rule exI [of _ "[Err modeErrorText]"])
        (simp add: mode_bad then_proc_def bind_proc_def consoleError_def processExit_def)
  next
    case usage
    then show ?thesis
      by (intro disjI2 exI [of _ "[Log usageText]"])
        (auto simp add: then_proc_def bind_proc_def printUsage_run)
  next
    case other
    show ?thesis
      by (rule disjI2, rule exI [of _ "[Err (''Unknown option: '' @ a), Log usageText]"])
        (simp add: other then_proc_def bind_proc_def consoleError_def printUsage_run)
  qed
qed

lemma scanArgs_result:
  "(\<exists>c. (\<forall>w t. scanArgs args config w t = (Return c, t))
       \<and> (''--project-name'' \<notin> set args \<longrightarrow> projectName c = projectName config)
       \<and> (''--base-token'' \<notin> set args \<longrightarrow> baseToken c = baseToken config)
       \<and> (''--solana-token'' \<notin> set args \<longrightarrow> solanaToken c = solanaToken config)
       \<and> (''--solana-payer'' \<notin> set args \<longrightarrow> solanaPayer c = solanaPayer config)
       \<and> (''--mode'' \<notin> set args \<longrightarrow> mode c = mode config))
   \<or> (\<exists>evs. (\<forall>w t. scanArgs args config w t = (Exit 1, t @ evs)) \<and> commands evs = [])"
proof (induction "length args" arbitrary: args config rule: less_induct)
  case less
  show ?case
  proof (cases args)
    case Nil
    then show ?thesis by (simp add: ret_def)
  next
    case (Cons a rest)
    have sub: "x \<notin> set rest \<Longrightarrow> x \<notin> set (drop 1 rest)" for x
      by (meson in_set_dropD)
    from scanArgs_step [of a rest config] show ?thesis
    proof (elim disjE exE conjE)
      fix config'
      assume run: "\<forall>w t. scanArgs (a # rest) config w t = scanArgs (drop 1 rest) config' w t"
        and keep: "a \<noteq> ''--project-name'' \<longrightarrow> projectName config' = projectName config"
          "a \<noteq> ''--base-token'' \<longrightarrow> baseToken config' = baseToken config"
          "a \<noteq> ''--solana-token'' \<longrightarrow> solanaToken config' = solanaToken config"
          "a \<noteq> ''--solana-payer'' \<longrightarrow> solanaPayer config' = solanaPayer config"
          "a \<noteq> ''--mode'' \<longrightarrow> mode config' = mode config"
      have "length (drop 1 rest) < length args" using Cons by simp
      from less [OF this, of config'] show ?thesis
      proof (elim disjE exE conjE)
        fix c
        assume "\<forall>w t. scanArgs (drop 1 rest) config' w t = (Return c, t)"
          and "''--project-name'' \<notin> set (drop 1 rest) \<longrightarrow> projectName c = projectName config'"
          and "''--base-token'' \<notin> set (drop 1 rest) \<longrightarrow> baseToken c = baseToken config'"
          and "''--solana-token'' \<notin> set (drop 1 rest) \<longrightarrow> solanaToken c = solanaToken config'"
          and "''--solana-payer'' \<notin> set (drop 1 rest) \<longrightarrow> solanaPayer c = solanaPayer config'"
          and "''--mode'' \<notin> set (drop 1 rest) \<longrightarrow> mode c = mode config'"
        with run keep sub show ?thesis
          unfolding Cons by (intro disjI1 exI [of _ c]) (auto simp del: scanArgs.simps)
      next
        fix evs
        assume "\<forall>w t. scanArgs (drop 1 rest) config' w t = (Exit 1, t @ evs)" "commands evs = []"
        with run show ?thesis
          unfolding Cons by (intro disjI2 exI [of _ evs]) (simp del: scanArgs.simps)
      qed
    next
      fix evs
      assume "\<forall>w t. scanArgs (a # rest) config w t = (Exit 1, t @ evs)" "commands evs = []"
      then show ?thesis unfolding Cons by blast
    qed
  qed
qed

lemma scanArgs_Return:
  assumes "scanArgs args config w t = (Return c, t')"
  shows "t' = t" and "scanArgs args config w' u = (Return c, u)"
  using assms scanArgs_result [of args config] by auto

lemma scanArgs_absent:
  assumes "scanArgs args config w t = (Return c, t')"
  shows "''--project-name'' \<notin> set args \<Longrightarrow> projectName c = projectName config"
    and "''--base-token'' \<notin> set args \<Longrightarrow> baseToken c = baseToken config"
    and "''--solana-token'' \<notin> set args \<Longrightarrow> solanaToken c = solanaToken config"
    and "''--solana-payer'' \<notin> set args \<Longrightarrow> solanaPayer c = solanaPayer config"
    and "''--mode'' \<notin> set args \<Longrightarrow> mode c = mode config"
  using assms scanArgs_result [of args config] by auto


lemma checkRequired_find:
  "checkRequired ps config w t =
     (case List.find (\<lambda>param. falsy (getParam config param)) ps of
        None \<Rightarrow> (Return (), t)
      | Some p \<Rightarrow>
          (Exit 1, t @ [Err (''Error: Missing required parameter --'' @ dashCase p), Log usageText]))"
  by (induction ps)
    (simp_all add: then_proc_def bind_proc_def ret_def consoleError_def printUsage_run)

lemma main_parse_Exit: "parseArgs argv w [] = (Exit n, t) \<Longrightarrow> main argv w = (n, t)"
  by (simp add: main_def tryCatch_def bind_proc_def)

lemma main_missing:
  assumes scan: "scanArgs args emptyConfig w [] = (Return config, t)"
    and p: "firstMissing config = Some p"
  shows "main (exe # script # args) w =
           (1, [Err (''Error: Missing required parameter --'' @ dashCase p), Log usageText])"
proof -
  from scan have t: "t = []" by (rule scanArgs_Return)
  have "parseArgs (exe # script # args) w [] =
          (Exit 1, [Err (''Error: Missing required parameter --'' @ dashCase p), Log usageText])"
    using scan t p
    by (simp add: parseArgs_def bind_proc_def then_proc_def checkRequired_find firstMissing_def)
  then show ?thesis by (rule main_parse_Exit)
qed

lemma dashCase_required:
  "dashCase ''projectName'' = ''project-name''"
  "dashCase ''baseToken'' = ''base-token''"
  "dashCase ''solanaToken'' = ''solana-token''"
  "dashCase ''solanaPayer'' = ''solana-payer''"
  by code_simp+

lemma absent_flag_falsy:
  assumes scan: "scanArgs args emptyConfig w [] = (Return config, t)"
    and p: "p \<in> set requiredParams" and flag: "''--'' @ dashCase p \<notin> set args"
  shows "falsy (getParam config p)"
proof -
  from p consider "p = ''projectName''" | "p = ''baseToken''" | "p = ''solanaToken''"
    | "p = ''solanaPayer''"
    by (auto simp: requiredParams_def)
  then show ?thesis
  proof cases
    case 1
    with flag have "''--project-name'' \<notin> set args" by (simp add: dashCase_required)
    from scanArgs_absent(1) [OF scan this] show ?thesis
      by (simp add: 1 getParam_def falsy_def emptyConfig_def)
  next
    case 2
    with flag have "''--base-token'' \<notin> set args" by (simp add: dashCase_required)
    from scanArgs_absent(2) [OF scan this] show ?thesis
      by (simp add: 2 getParam_def falsy_def emptyConfig_def)
  next
    case 3
    with flag have "''--solana-token'' \<notin> set args" by (simp add: dashCase_required)
    from scanArgs_absent(3) [OF scan this] show ?thesis
      by (simp add: 3 getParam_def falsy_def emptyConfig_def)
  next
    case 4
    with flag have "''--solana-payer'' \<notin> set args" by (simp add: dashCase_required)
    from scanArgs_absent(4) [OF scan this] show ?thesis
      by (simp add: 4 getParam_def falsy_def emptyConfig_def)
  qed
qed

lemma stringify_overrides: "stringify 0 overrides = overridesText"
  by (simp add: overrides_def DEFAULT_CONFIG_def quoteJSON_def quoteChar_def overridesText_def
      newline_def backslash_def)

lemmas run_defs =
  main_def parseArgs_def emptyConfig_def requiredParams_def getParam_def falsy_def
  checkPayer_def deployNTT_def checkPrerequisites_def prepareSolanaDeployment_def
  DEFAULT_CONFIG_def modeString_def jsStr_def nextArg_def modeOfString_def printUsage_def

lemma attempted_prefix: "prefix (attempted w t cs) cs"
  by (induction cs arbitrary: t) (simp_all split: exec_result.splits)

lemma block_execs:
  "block (map (\<lambda>c. stmt (execSync c)) cs) w t =
     (if allSucceed w t cs then (Return (), t @ map Exec cs)
      else (Throw (ExecError (last (attempted w t cs))
                     (case run w (t @ map Exec (butlast (attempted w t cs))) (last (attempted w t cs))
                      of ExecFail st \<Rightarrow> st | ExecOk _ \<Rightarrow> None)),
            t @ map Exec (attempted w t cs)))"
proof (induction cs arbitrary: t)
  case Nil
  show ?case by (simp add: ret_def)
next
  case (Cons c cs)
  show ?case
  proof (cases "run w t c")
    case (ExecOk out)
    then show ?thesis
      using Cons [of "t @ [Exec c]"]
      apply (simp add: then_proc_def stmt_def bind_proc_def execSync_def ret_def)
      apply (cases cs)
       apply (simp_all split: exec_result.splits)
      done
  next
    case (ExecFail st)
    then show ?thesis
      by (simp add: then_proc_def stmt_def bind_proc_def execSync_def ret_def)
  qed
qed

lemma checkPrerequisites_run:
  "checkPrerequisites w t =
     (if allSucceed w t probes then (Return (), t @ map Exec probes)
      else (Exit 1, t @ map Exec (attempted w t probes) @ remediation))"
proof -
  have eq: "checkPrerequisites =
     tryCatch (block (map (\<lambda>c. stmt (execSync c)) probes))
       (\<lambda>error. block
         [ consoleError ''Missing required tools. Please install:'',
           consoleError ''- Solana CLI tools (solana, spl-token)'',
           consoleError ''- Anchor (https://www.anchor-lang.com/docs/installation)'',
           consoleError
             ''- Foundry (forge) (https://book.getfoundry.sh/getting-started/installation)'',
           consoleError
             ''- NTT CLI (https://wormhole.com/docs/build/contract-integrations/native-token-transfers/deployment-process/install-cli)'',
           processExit 1 ])"
    by (simp add: checkPrerequisites_def probes_def)
  show ?thesis
    unfolding eq
    by (simp add: block_execs tryCatch_def remediation_def then_proc_def bind_proc_def
        consoleError_def processExit_def del: allSucceed.simps attempted.simps)
qed

lemma follows_eq: "follows w proj m p \<Longrightarrow> p = q \<Longrightarrow> follows w proj m q"
  by simp

lemma follows_ret: "proj [] = [] \<Longrightarrow> follows w proj (ret x) []"
  by (simp add: follows_def ret_def)

lemma follows_consoleLog: "follows w proj (consoleLog s) (proj [Log s])"
  by (simp add: follows_def consoleLog_def)

lemma follows_execSync: "follows w proj (execSync c) (proj [Exec c])"
  by (simp add: follows_def execSync_def split: exec_result.splits)

lemma follows_writeFileSync: "follows w proj (writeFileSync p d) (proj [WriteFile p d])"
  by (simp add: follows_def writeFileSync_def)

lemma follows_bind:
  assumes hom: "\<And>a b. proj (a @ b) = proj a @ proj b"
    and m: "follows w proj m p" and k: "\<And>x. follows w proj (k x) q"
  shows "follows w proj (bind_proc m k) (p @ q)"
  unfolding follows_def
proof
  fix t
  from m obtain r evs where r: "m w t = (r, t @ evs)" "prefix (proj evs) p"
    "(\<exists>x. r = Return x) \<longrightarrow> proj evs = p"
    unfolding follows_def by blast
  show "\<exists>r evs. bind_proc m k w t = (r, t @ evs) \<and> prefix (proj evs) (p @ q)
        \<and> ((\<exists>x. r = Return x) \<longrightarrow> proj evs = p @ q)"
  proof (cases r)
    case (Return x)
    from k [of x] obtain r' evs' where r': "k x w (t @ evs) = (r', (t @ evs) @ evs')"
      "prefix (proj evs') q" "(\<exists>x. r' = Return x) \<longrightarrow> proj evs' = q"
      unfolding follows_def by blast
    from r Return have "proj evs = p" by simp
    with r(1) r' Return show ?thesis
      by (intro exI [of _ r'] exI [of _ "evs @ evs'"]) (simp add: bind_proc_def hom)
  next
    case (Throw e)
    with r show ?thesis
      by (intro exI [of _ "Throw e"] exI [of _ evs]) (simp add: bind_proc_def prefix_prefix)
  next
    case (Exit n)
    with r show ?thesis
      by (intro exI [of _ "Exit n"] exI [of _ evs]) (simp add: bind_proc_def prefix_prefix)
  qed
qed

lemma follows_then:
  assumes "\<And>a b. proj (a @ b) = proj a @ proj b"
    and "follows w proj m p" and "follows w proj k q"
  shows "follows w proj (then_proc m k) (p @ q)"
  unfolding then_proc_def using assms by (intro follows_bind) auto

lemma proj_Nil: "(\<And>a b. proj (a @ b) = proj a @ proj b) \<Longrightarrow> proj [] = ([] :: 'b list)"
proof -
  assume hom: "\<And>a b. proj (a @ b) = proj a @ ((proj b) :: 'b list)"
  from hom [of "[]" "[]"] show ?thesis by simp
qed

lemma follows_stmt:
  assumes "\<And>a b. proj (a @ b) = proj a @ proj b" and "follows w proj m p"
  shows "follows w proj (stmt m) p"
proof -
  have "follows w proj (bind_proc m (\<lambda>_. ret ())) (p @ [])"
    using assms by (intro follows_bind follows_ret proj_Nil) auto
  then show ?thesis by (simp add: stmt_def)
qed

lemma follows_block_Nil:
  "(\<And>a b. proj (a @ b) = proj a @ proj b) \<Longrightarrow> follows w proj (block []) []"
  by (simp add: follows_ret proj_Nil)

lemma follows_block_Cons:
  assumes "\<And>a b. proj (a @ b) = proj a @ proj b"
    and "follows w proj s p" and "follows w proj (block ss) q"
  shows "follows w proj (block (s # ss)) (p @ q)"
  using assms by (simp add: follows_then)

lemma parseArgs_result:
  "(\<exists>config. \<forall>u. parseArgs argv w u = (Return config, u))
   \<or> (\<exists>evs. (\<forall>u. parseArgs argv w u = (Exit 1, u @ evs)) \<and> commands evs = [])"
proof -
  from scanArgs_result [of "drop 2 argv" emptyConfig] show ?thesis
  proof (elim disjE exE conjE)
    fix c
    assume scan: "\<forall>w t. scanArgs (drop 2 argv) emptyConfig w t = (Return c, t)"
    show ?thesis
    proof (cases "firstMissing c")
      case (Some p)
      then have "\<forall>u. parseArgs argv w u =
          (Exit 1, u @ [Err (''Error: Missing required parameter --'' @ dashCase p), Log usageText])"
        using scan
        by (simp add: parseArgs_def bind_proc_def then_proc_def checkRequired_find firstMissing_def)
      then show ?thesis by (intro disjI2 exI conjI) (assumption, simp)
    next
      case None
      show ?thesis
      proof (cases "case solanaPayer c of None \<Rightarrow> False | Some p \<Rightarrow> existsSync w p")
        case True
        with None scan have "\<forall>u. parseArgs argv w u = (Return c, u)"
          by (simp add: parseArgs_def bind_proc_def then_proc_def checkRequired_find firstMissing_def
              checkPayer_def ret_def)
        then show ?thesis by blast
      next
        case False
        with None scan have "\<forall>u. parseArgs argv w u =
            (Exit 1, u @ [Err (''Error: Solana payer file not found: '' @ jsStr (solanaPayer c))])"
          by (simp add: parseArgs_def bind_proc_def then_proc_def checkRequired_find firstMissing_def
              checkPayer_def ret_def consoleError_def processExit_def)
        then show ?thesis by (intro disjI2 exI conjI) (assumption, simp)
      qed
    qed
  next
    fix evs
    assume "\<forall>w t. scanArgs (drop 2 argv) emptyConfig w t = (Exit 1, t @ evs)" "commands evs = []"
    then show ?thesis
      by (intro disjI2 exI [of _ evs]) (simp add: parseArgs_def bind_proc_def)
  qed
qed

lemma main_deploy:
  assumes "parseArgs argv w [] = (Return config, t)"
  shows "t = []"
    and "main argv w =
      (case deployNTT config w [] of
         (Return _, t') \<Rightarrow> (0, t')
       | (Throw e, t') \<Rightarrow> (0, t' @ [ErrValue e])
       | (Exit n, t') \<Rightarrow> (n, t'))"
proof -
  from assms parseArgs_result [of argv w] show t: "t = []" by auto
  from assms t show "main argv w =
      (case deployNTT config w [] of
         (Return _, t') \<Rightarrow> (0, t')
       | (Throw e, t') \<Rightarrow> (0, t' @ [ErrValue e])
       | (Exit n, t') \<Rightarrow> (n, t'))"
    by (simp add: main_def tryCatch_def bind_proc_def promiseCatch_def consoleErrorValue_def
        split: prod.splits outcome.splits)
qed

lemma commands_map_Exec: "commands (map Exec cs) = cs"
  by (induction cs) simp_all

lemma follows_checkPrerequisites: "follows w commands checkPrerequisites probes"
  by (simp add: follows_def checkPrerequisites_run commands_append commands_map_Exec
      remediation_def attempted_prefix del: allSucceed.simps attempted.simps)

lemma follows_processChdir_commands: "follows w commands (processChdir d) []"
  by (simp add: follows_def processChdir_def split: option.splits)

lemma follows_last_step:
  "follows w commands (bind_proc (execSync c) (\<lambda>deploymentJson. consoleLog deploymentJson)) [c]"
proof -
  have "follows w commands (bind_proc (execSync c) (\<lambda>deploymentJson. consoleLog deploymentJson))
          (commands [Exec c] @ [])"
  proof (rule follows_bind [OF commands_append follows_execSync])
    fix x
    have "follows w commands (consoleLog x) (commands [Log x])" by (rule follows_consoleLog)
    then show "follows w commands (consoleLog x) []" by simp
  qed
  then show ?thesis by simp
qed

lemma follows_deployNTT_no_preparation:
  assumes "mode config \<noteq> Some Burning"
  shows "follows w commands (deployNTT config)
     (directPlan config (case mode config of None \<Rightarrow> Burning | Some m \<Rightarrow> m))"
proof -
  have prep: "follows w commands (prepareSolanaDeployment config) []"
    using assms by (simp add: prepareSolanaDeployment_def follows_ret)
  show ?thesis
    unfolding deployNTT_def Let_def
    apply (rule follows_eq)
     apply (rule follows_block_Cons [where proj = commands, OF commands_append]
        follows_block_Nil [where proj = commands, OF commands_append]
        follows_stmt [where proj = commands, OF commands_append]
        follows_checkPrerequisites follows_consoleLog follows_execSync
        follows_processChdir_commands follows_writeFileSync prep follows_last_step)+
     apply simp
    apply (simp add: DEFAULT_CONFIG_def directPlan_def split: option.splits)
    done
qed

lemma deployNTT_calm:
  "deployNTT demoConfig (calmWorld out) [] =
     (Return (),
      [Exec ''which solana'', Exec ''which spl-token'', Exec ''which anchor'',
       Exec ''which forge'', Exec ''which ntt'',
       Log ''Creating new NTT project: demo'', Exec ''ntt new demo'', Chdir ''demo'',
       Log ''Initializing project for Testnet'', Exec ''ntt init Testnet'',
       WriteFile ''overrides.json'' overridesText,
       Log ''Adding Solana chain...'',
       Exec ''ntt add-chain Solana --token TokenkegQfeZyiNwAJbNbGKPFXCWuBvf9Ss623VQ5DA --mode burning --latest --payer ./payer.json'',
       Log ''Adding Base chain...'',
       Exec ''ntt add-chain Base --token 0xAAA --mode burning --latest --skip-verify'',
       Log ''Pushing configuration...'',
       Exec ''ntt push --yes --payer ./payer.json'',
       Log ''Deployment complete! Configuration saved in deployment.json'',
       Exec ''cat deployment.json'', Log out])"
  by (simp add: run_defs proc_defs calmWorld_def demoConfig_def stringify_overrides)

lemma parseArgs_demo:
  "existsSync w ''./payer.json'' \<Longrightarrow> parseArgs demoArgv w t = (Return demoConfig, t)"
  by (simp add: run_defs proc_defs demoArgv_def demoConfig_def)

lemma findNttKeypairFile_trace: "\<exists>r. findNttKeypairFile w t = (r, t @ [Exec findCommand])"
  by (simp add: findNttKeypairFile_def tryCatch_def bind_proc_def execSync_def throw_def ret_def
      Let_def split: exec_result.splits)

lemma follows_findNttKeypairFile:
  "follows w proj findNttKeypairFile (proj [Exec findCommand])"
  unfolding follows_def
proof
  fix t
  from findNttKeypairFile_trace [of w t] obtain r where
    "findNttKeypairFile w t = (r, t @ [Exec findCommand])" by blast
  then show "\<exists>r evs. findNttKeypairFile w t = (r, t @ evs)
      \<and> prefix (proj evs) (proj [Exec findCommand])
      \<and> ((\<exists>x. r = Return x) \<longrightarrow> proj evs = proj [Exec findCommand])"
    by (intro exI [of _ r] exI [of _ "[Exec findCommand]"]) simp
qed

lemma follows_processChdir_fileOps: "follows w fileOps (processChdir d) [Chdir (jsStr d)]"
  by (simp add: follows_def processChdir_def jsStr_def split: option.splits)

lemma follows_fileOps_quiet:
  "follows w fileOps (consoleLog s) []"
  "follows w fileOps (execSync c) []"
  "follows w fileOps findNttKeypairFile []"
  using follows_consoleLog [of w fileOps s] follows_execSync [of w fileOps c]
    follows_findNttKeypairFile [of w fileOps]
  by simp_all

lemma follows_fileOps_write:
  "follows w fileOps (writeFileSync p d) [WriteFile p d]"
  using follows_writeFileSync [of w fileOps p d] by simp

lemmas follows_fileOps_rules =
  follows_block_Cons [where proj = fileOps, OF fileOps_append]
  follows_block_Nil [where proj = fileOps, OF fileOps_append]
  follows_stmt [where proj = fileOps, OF fileOps_append]
  follows_then [where proj = fileOps, OF fileOps_append]
  follows_bind [where proj = fileOps, OF fileOps_append]
  follows_fileOps_quiet follows_processChdir_fileOps follows_fileOps_write

lemma follows_prepare_fileOps: "follows w fileOps (prepareSolanaDeployment config) []"
proof (cases "mode config = Some Burning")
  case True
  then show ?thesis
    apply (simp only: prepareSolanaDeployment_def simp_thms if_True Let_def)
    apply (rule follows_eq)
     apply (rule follows_fileOps_rules)+
    apply simp
    done
next
  case False
  then show ?thesis
    by (simp add: prepareSolanaDeployment_def follows_ret)
qed

lemma fileOps_map_Exec: "fileOps (map Exec cs) = []"
  by (induction cs) simp_all

lemma follows_checkPrerequisites_fileOps: "follows w fileOps checkPrerequisites []"
  by (simp add: follows_def checkPrerequisites_run fileOps_append remediation_def fileOps_map_Exec
      del: allSucceed.simps attempted.simps)

lemma follows_deployNTT_fileOps:
  "follows w fileOps (deployNTT config)
     [Chdir (jsStr (projectName config)), WriteFile ''overrides.json'' overridesText]"
  unfolding deployNTT_def Let_def
  apply (rule follows_eq)
   apply (rule follows_fileOps_rules follows_checkPrerequisites_fileOps follows_prepare_fileOps)+
  apply (simp add: stringify_overrides)
  done

lemma follows_extends: "follows w proj m plan \<Longrightarrow> prefix t (snd (m w t))"
  unfolding follows_def
proof -
  assume "\<forall>t. \<exists>r evs. m w t = (r, t @ evs) \<and> prefix (proj evs) plan
      \<and> ((\<exists>x. r = Return x) \<longrightarrow> proj evs = plan)"
  then obtain r evs where "m w t = (r, t @ evs)" by blast
  then show ?thesis by simp
qed

lemma deployNTT_probe_failed:
  "\<not> allSucceed w t probes \<Longrightarrow>
     deployNTT config w t = (Exit 1, t @ map Exec (attempted w t probes) @ remediation)"
  by (simp add: deployNTT_def Let_def then_proc_def bind_proc_def checkPrerequisites_run
      del: allSucceed.simps attempted.simps)

lemma deployNTT_after_probes:
  assumes "allSucceed w t probes"
  shows "prefix (t @ map Exec probes) (snd (deployNTT config w t))"
proof -
  have "prefix (t @ map Exec probes) (snd (block ss w (t @ map Exec probes)))"
    if "follows w fileOps (block ss) plan" for ss plan
    using that by (rule follows_extends)
  then show ?thesis
    using assms
    unfolding deployNTT_def Let_def
    apply (subst block.simps(2))
    apply (simp only: then_proc_def bind_proc_def checkPrerequisites_run if_True prod.case
        outcome.case)
    apply (rule follows_extends [where proj = fileOps])
    apply (rule follows_fileOps_rules follows_prepare_fileOps)+
    done
qed

section \<open>The lines that the locator reads\<close>

lemma findCommand_value:
  \<open>findCommand = ''ls -1 | grep -i "^ntt.*.json$"''\<close>
  by (simp add: findCommand_def findCommandSource_def backslash_def escapeValue_def)

lemma grepPattern_value: "grepPattern = ''^ntt.*.json$''"
  by (simp add: grepPattern_def findCommand_value)

lemma nttRegex_value:
  "parseBre grepPattern =
     \<lparr> fromStart = True,
       body = [One (Lit (CHR ''n'')), One (Lit (CHR ''t'')), One (Lit (CHR ''t'')),
               Star AnyChar, One AnyChar,
               One (Lit (CHR ''j'')), One (Lit (CHR ''s'')), One (Lit (CHR ''o'')),
               One (Lit (CHR ''n''))],
       toEnd = True \<rparr>"
  by (simp add: grepPattern_value parseBre_def backslash_def Let_def)

lemma letter_n_not_space: "atomMatches (Lit (CHR ''n'')) c \<Longrightarrow> \<not> isWhiteSpace c"
  by (auto simp: atomMatches_def toLowerCase_def isUpperAZ_def isWhiteSpace_def split: if_splits)

lemma matchHere_last:
  "matchHere items True s \<Longrightarrow> items = pre @ [One a] \<Longrightarrow> s \<noteq> [] \<and> atomMatches a (last s)"
proof (induction items "True" s arbitrary: pre rule: matchHere.induct)
  case (1 s)
  then show ?case by simp
next
  case (2 b items)
  from "2.prems"(1) show ?case by simp
next
  case (3 b items c cs)
  from "3.prems"(1) have bc: "atomMatches b c" and rest: "matchHere items True cs"
    by simp_all
  show ?case
  proof (cases pre)
    case Nil
    with "3.prems"(2) have "items = []" and "b = a" by simp_all
    with bc rest show ?thesis by simp
  next
    case (Cons p pre')
    with "3.prems"(2) have "items = pre' @ [One a]" by simp
    with "3.hyps" [of pre'] rest show ?thesis by simp
  qed
next
  case (4 b items)
  from "4.prems"(2) obtain pre' where "items = pre' @ [One a]"
    by (cases pre) simp_all
  moreover from "4.prems"(1) have "matchHere items True []" by simp
  ultimately show ?case using "4.hyps" [of pre'] by simp
next
  case (5 b items c cs)
  from "5.prems"(2) obtain pre' where pre': "pre = Star b # pre'" "items = pre' @ [One a]"
    by (cases pre) simp_all
  from "5.prems"(1) consider "matchHere items True (c # cs)"
    | "atomMatches b c" "matchHere (Star b # items) True cs"
    by auto
  then show ?case
  proof cases
    case 1
    with "5.hyps"(1) [of pre'] pre' show ?thesis by simp
  next
    case 2
    with "5.hyps"(2) [of pre] "5.prems"(2) show ?thesis by simp
  qed
qed

lemma matching_line_shape:
  assumes "matchLine (parseBre grepPattern) l"
  shows "l \<noteq> []" and "\<not> isWhiteSpace (hd l)" and "\<not> isWhiteSpace (last l)"
proof -
  let ?items = "[One (Lit (CHR ''n'')), One (Lit (CHR ''t'')), One (Lit (CHR ''t'')),
               Star AnyChar, One AnyChar,
               One (Lit (CHR ''j'')), One (Lit (CHR ''s'')), One (Lit (CHR ''o'')),
               One (Lit (CHR ''n''))]"
  from assms have m: "matchHere ?items True l"
    by (simp add: matchLine_def nttRegex_value)
  then obtain c cs where l: "l = c # cs" and c: "atomMatches (Lit (CHR ''n'')) c"
    by (cases l) simp_all
  from l show "l \<noteq> []" by simp
  from l c show "\<not> isWhiteSpace (hd l)" by (simp add: letter_n_not_space)
  from matchHere_last [OF m, of "butlast ?items" "Lit (CHR ''n'')"]
  have "atomMatches (Lit (CHR ''n'')) (last l)" by simp
  then show "\<not> isWhiteSpace (last l)" by (rule letter_n_not_space)
qed

lemma split_not_Nil: "split sep s \<noteq> []"
  by (induction s) (simp_all split: list.splits)

lemma split_no_sep: "sep \<notin> set l \<Longrightarrow> split sep l = [l]"
  by (induction l) auto

lemma split_append_sep: "sep \<notin> set l \<Longrightarrow> split sep (l @ sep # rest) = l # split sep rest"
  by (induction l) auto

lemma split_pieces: "p \<in> set (split sep s) \<Longrightarrow> sep \<notin> set p"
proof (induction s arbitrary: p)
  case Nil
  then show ?case by simp
next
  case (Cons c cs)
  show ?case
  proof (cases "c = sep")
    case True
    with Cons show ?thesis by auto
  next
    case False
    obtain q qs where q: "split sep cs = q # qs"
      using split_not_Nil [of sep cs] by (cases "split sep cs") auto
    with Cons False show ?thesis by auto
  qed
qed

lemma textLines_pieces: "l \<in> set (textLines s) \<Longrightarrow> newline \<notin> set l"
  by (auto simp: textLines_def Let_def dest: split_pieces in_set_butlastD split: if_splits)

lemma split_lines:
  assumes "\<forall>l\<in>set ls. sep \<notin> set l"
  shows "split sep (concat (map (\<lambda>l. l @ [sep]) ls)) = ls @ [[]]"
  using assms by (induction ls) (simp_all add: split_append_sep)

lemma split_joined:
  assumes "ls \<noteq> []" and "\<forall>l\<in>set ls. sep \<notin> set l"
  shows "split sep (butlast (concat (map (\<lambda>l. l @ [sep]) ls))) = ls"
  using assms
proof (induction ls)
  case Nil
  then show ?case by simp
next
  case (Cons l ls)
  show ?case
  proof (cases ls)
    case Nil
    with Cons.prems show ?thesis by (simp add: split_no_sep)
  next
    case (Cons l' ls')
    then have ne: "concat (map (\<lambda>l. l @ [sep]) ls) \<noteq> []" by simp
    have "butlast (concat (map (\<lambda>l. l @ [sep]) (l # ls)))
          = l @ sep # butlast (concat (map (\<lambda>l. l @ [sep]) ls))"
      using ne by (simp add: butlast_append)
    with Cons.IH Cons.prems Cons show ?thesis by (simp add: split_append_sep)
  qed
qed

lemma trim_lines:
  assumes ne: "ms \<noteq> []"
    and shape: "\<forall>m\<in>set ms. m \<noteq> [] \<and> \<not> isWhiteSpace (hd m) \<and> \<not> isWhiteSpace (last m)"
  shows "trim (concat (map (\<lambda>l. l @ [newline]) ms))
         = butlast (concat (map (\<lambda>l. l @ [newline]) ms))"
proof -
  let ?X = "concat (map (\<lambda>l. l @ [newline]) ms)"
  from ne obtain m0 rest where ms0: "ms = m0 # rest" by (cases ms) auto
  from ne obtain front m where ms1: "ms = front @ [m]" by (cases ms rule: rev_cases) auto
  from shape ms0 obtain c cs where m0: "m0 = c # cs" "\<not> isWhiteSpace c"
    by (cases m0) auto
  have front: "dropWhile isWhiteSpace ?X = ?X"
    using ms0 m0 by simp
  define Y where "Y = concat (map (\<lambda>l. l @ [newline]) front) @ m"
  have X: "?X = Y @ [newline]" by (simp add: ms1 Y_def)
  from shape ms1 have m: "m \<noteq> []" "\<not> isWhiteSpace (last m)" by auto
  then have Y: "Y \<noteq> []" "\<not> isWhiteSpace (last Y)" by (simp_all add: Y_def)
  then obtain y ys where revY: "rev Y = y # ys" "\<not> isWhiteSpace y"
    by (cases Y rule: rev_cases) auto
  have nl: "isWhiteSpace newline" by (simp add: isWhiteSpace_def newline_def)
  have "trim ?X = rev (dropWhile isWhiteSpace (rev ?X))"
    by (simp only: trim_def front)
  also have "\<dots> = rev (dropWhile isWhiteSpace (rev (Y @ [newline])))"
    by (simp only: X)
  also have "\<dots> = rev (rev Y)" using nl revY by simp
  finally show ?thesis by (simp add: X)
qed

lemma files_of_listing:
  assumes "ms \<noteq> []" and "\<forall>m\<in>set ms. matchLine (parseBre grepPattern) m \<and> newline \<notin> set m"
  shows "split newline (trim (concat (map (\<lambda>l. l @ [newline]) ms))) = ms"
proof -
  from assms(2) have "\<forall>m\<in>set ms. m \<noteq> [] \<and> \<not> isWhiteSpace (hd m) \<and> \<not> isWhiteSpace (last m)"
    using matching_line_shape by blast
  with assms show ?thesis by (simp add: trim_lines split_joined)
qed

lemma lsGrep_matchingLines:
  "lsGrep entries =
     (if matchingLines entries = [] then ExecFail (Some 1)
      else ExecOk (concat (map (\<lambda>l. l @ [newline]) (matchingLines entries))))"
  by (simp add: lsGrep_def grep_def matchingLines_def Let_def)

lemma matchingLines_shape:
  "\<forall>m\<in>set (matchingLines entries). matchLine (parseBre grepPattern) m \<and> newline \<notin> set m"
  by (auto simp: matchingLines_def dest: textLines_pieces)

lemma findNttKeypairFile_result:
  assumes "run w t findCommand = lsGrep entries"
  shows "findNttKeypairFile w t =
     ((case matchingLines entries of
         [] \<Rightarrow> Throw (Error notFoundText)
       | [f] \<Rightarrow> Return f
       | _ # _ # _ \<Rightarrow> Throw (Error multipleText)),
      t @ [Exec findCommand])"
proof (cases "matchingLines entries")
  case Nil
  with assms show ?thesis
    by (simp add: lsGrep_matchingLines findNttKeypairFile_def tryCatch_def bind_proc_def
        execSync_def throw_def errorStatus_def)
next
  case (Cons f fs)
  then have ne: "matchingLines entries \<noteq> []" by simp
  from files_of_listing [OF ne matchingLines_shape]
  have files: "split newline (trim (concat (map (\<lambda>l. l @ [newline]) (matchingLines entries))))
               = f # fs"
    by (simp add: Cons)
  from matchingLines_shape [of entries] Cons have "f \<noteq> []"
    using matching_line_shape(1) by auto
  with assms ne files show ?thesis
    by (cases fs)
      (simp_all add: Cons lsGrep_matchingLines findNttKeypairFile_def tryCatch_def bind_proc_def
        execSync_def throw_def ret_def errorStatus_def Let_def)
qed

lemma follows_prepare_stops:
  assumes listing: "\<forall>t. run w t findCommand = lsGrep entries"
    and count: "length (matchingLines entries) \<noteq> 1"
    and burning: "mode config = Some Burning"
  shows "follows w commands (prepareSolanaDeployment config) [keygenCommand, findCommand]"
  unfolding follows_def
proof
  fix t
  let ?t1 = "t @ [Log ''Generating program keypair for burning mode...'']"
  let ?t2 = "?t1 @ [Exec keygenCommand]"
  from listing have "run w ?t2 findCommand = lsGrep entries" by blast
  from findNttKeypairFile_result [OF this] count obtain e where
    find: "findNttKeypairFile w ?t2 = (Throw e, ?t2 @ [Exec findCommand])"
    by (cases "matchingLines entries" rule: list.exhaust; simp split: list.splits)
  show "\<exists>r evs. prepareSolanaDeployment config w t = (r, t @ evs)
          \<and> prefix (commands evs) [keygenCommand, findCommand]
          \<and> ((\<exists>x. r = Return x) \<longrightarrow> commands evs = [keygenCommand, findCommand])"
  proof (cases "run w ?t1 keygenCommand")
    case (ExecOk out)
    with find burning have
      "prepareSolanaDeployment config w t = (Throw e, t @ [Log ''Generating program keypair for burning mode...'', Exec keygenCommand, Exec findCommand])"
      by (simp add: prepareSolanaDeployment_def then_proc_def stmt_def bind_proc_def
          consoleLog_def execSync_def ret_def)
    then show ?thesis by simp
  next
    case (ExecFail st)
    with burning have
      "prepareSolanaDeployment config w t = (Throw (ExecError keygenCommand st), t @ [Log ''Generating program keypair for burning mode...'', Exec keygenCommand])"
      by (simp add: prepareSolanaDeployment_def then_proc_def stmt_def bind_proc_def
          consoleLog_def execSync_def ret_def)
    then show ?thesis by simp
  qed
qed

lemma follows_deployNTT_stops:
  assumes listing: "\<forall>t. run w t findCommand = lsGrep entries"
    and count: "length (matchingLines entries) \<noteq> 1"
    and burning: "mode config = Some Burning"
  shows "follows w commands (deployNTT config)
           (probes @
            [ ''ntt new '' @ jsStr (projectName config), ''ntt init Testnet'',
              keygenCommand, findCommand ] @
            drop 7 (directPlan config Burning))"
proof -
  note prep = follows_prepare_stops [OF assms]
  show ?thesis
    unfolding deployNTT_def Let_def
    apply (rule follows_eq)
     apply (rule follows_block_Cons [where proj = commands, OF commands_append]
        follows_block_Nil [where proj = commands, OF commands_append]
        follows_stmt [where proj = commands, OF commands_append]
        follows_checkPrerequisites follows_consoleLog follows_execSync
        follows_processChdir_commands follows_writeFileSync prep follows_last_step)+
    apply (simp add: DEFAULT_CONFIG_def directPlan_def probes_def burning)
    done
qed

lemma plan_without_authorize:
  "\<forall>c\<in>set (directPlan config m). \<not> prefix ''spl-token authorize'' c"
  "\<not> prefix ''spl-token authorize'' keygenCommand"
  "\<not> prefix ''spl-token authorize'' findCommand"
  by (simp_all add: directPlan_def probes_def keygenCommand_def findCommand_value)

lemma deployNTT_without_authorize:
  assumes listing: "\<forall>t. run w t findCommand = lsGrep entries"
    and count: "length (matchingLines entries) \<noteq> 1"
  shows "\<exists>r evs. deployNTT config w t = (r, t @ evs)
           \<and> (\<forall>c\<in>set (commands evs). \<not> prefix ''spl-token authorize'' c)"
proof (cases "mode config = Some Burning")
  case True
  let ?plan = "probes @
            [ ''ntt new '' @ jsStr (projectName config), ''ntt init Testnet'',
              keygenCommand, findCommand ] @
            drop 7 (directPlan config Burning)"
  from follows_deployNTT_stops [OF assms True] obtain r evs where
    run: "deployNTT config w t = (r, t @ evs)" and pre: "prefix (commands evs) ?plan"
    unfolding follows_def by blast
  have "\<forall>c\<in>set ?plan. \<not> prefix ''spl-token authorize'' c"
    using plan_without_authorize(1) [of config Burning] plan_without_authorize(2,3)
    by (auto simp: probes_def dest: in_set_dropD)
  with set_mono_prefix [OF pre] run show ?thesis by blast
next
  case False
  let ?plan = "directPlan config (case mode config of None \<Rightarrow> Burning | Some m \<Rightarrow> m)"
  from follows_deployNTT_no_preparation [OF False] obtain r evs where
    run: "deployNTT config w t = (r, t @ evs)" and pre: "prefix (commands evs) ?plan"
    unfolding follows_def by blast
  with set_mono_prefix [OF pre] plan_without_authorize(1) run show ?thesis by blast
qed

lemma main_without_authorize:
  assumes listing: "\<forall>t. run w t findCommand = lsGrep entries"
    and count: "length (matchingLines entries) \<noteq> 1"
  shows "\<forall>c\<in>set (commands (snd (main argv w))). \<not> prefix ''spl-token authorize'' c"
proof -
  from parseArgs_result [of argv w] show ?thesis
  proof (elim disjE exE conjE)
    fix config
    assume "\<forall>u. parseArgs argv w u = (Return config, u)"
    then have p: "parseArgs argv w [] = (Return config, [])" by blast
    from deployNTT_without_authorize [OF assms, of config "[]"] obtain r evs where
      "deployNTT config w [] = (r, evs)"
      "\<forall>c\<in>set (commands evs). \<not> prefix ''spl-token authorize'' c"
      by auto
    then show ?thesis
      unfolding main_deploy(2) [OF p]
      by (cases r) (simp_all add: commands_append)
  next
    fix evs
    assume "\<forall>u. parseArgs argv w u = (Exit 1, u @ evs)" and none: "commands evs = []"
    then have "parseArgs argv w [] = (Exit 1, evs)" by simp
    from main_parse_Exit [OF this] none show ?thesis by simp
  qed
qed

lemma textLines_ls1:
  assumes "\<forall>n\<in>set entries. newline \<notin> set n"
  shows "textLines (ls1 entries) = filter (\<lambda>n. \<not> prefix ''.'' n) entries"
proof -
  from assms have "\<forall>n\<in>set (filter (\<lambda>n. \<not> prefix ''.'' n) entries). newline \<notin> set n"
    by simp
  from split_lines [OF this] show ?thesis
    by (simp add: textLines_def ls1_def Let_def)
qed

lemma hidden_never_matches: "matchLine (parseBre grepPattern) n \<Longrightarrow> \<not> prefix ''.'' n"
  by (cases n)
    (auto simp: matchLine_def nttRegex_value atomMatches_def toLowerCase_def isUpperAZ_def
      split: if_splits)

lemma matchingLines_entries:
  assumes "\<forall>n\<in>set entries. newline \<notin> set n"
  shows "matchingLines entries = filter (matchLine (parseBre grepPattern)) entries"
proof -
  have "filter (matchLine (parseBre grepPattern)) (filter (\<lambda>n. \<not> prefix ''.'' n) entries)
        = filter (matchLine (parseBre grepPattern)) entries"
    using hidden_never_matches by (induction entries) auto
  with textLines_ls1 [OF assms] show ?thesis by (simp add: matchingLines_def)
qed

lemma matchingLines_examples:
  "matchingLines [''ntt1.json'', ''NTT2.json''] = [''ntt1.json'', ''NTT2.json'']"
  "matchingLines [''a.txt''] = []"
  "matchingLines [''nttXjson'', ''notes.txt''] = [''nttXjson'']"
  by code_simp+

lemma nttJsonName_examples:
  "filter nttJsonName [''ntt1.json'', ''nttXjson''] = [''ntt1.json'']"
  "filter nttJsonName [''nttXjson'', ''notes.txt''] = []"
  by code_simp+

lemma matchingLines_stray: "matchingLines [''ntt1.json'', ''nttXjson''] = [''ntt1.json'', ''nttXjson'']"
  by code_simp

lemma burning_run_stray:
  "main (demoArgv @ [''--mode'', ''burning'']) (dirWorld [''nttXjson'', ''notes.txt'']) =
     (0,
      [Exec ''which solana'', Exec ''which spl-token'', Exec ''which anchor'',
       Exec ''which forge'', Exec ''which ntt'',
       Log ''Creating new NTT project: demo'', Exec ''ntt new demo'', Chdir ''demo'',
       Log ''Initializing project for Testnet'', Exec ''ntt init Testnet'',
       WriteFile ''overrides.json'' overridesText,
       Log ''Generating program keypair for burning mode...'',
       Exec keygenCommand, Exec findCommand,
       Log ''Program keypair file: nttXjson'',
       Exec ''ntt solana token-authority nttXjson'',
       Log ''Setting mint authority...'',
       Exec ''spl-token authorize TokenkegQfeZyiNwAJbNbGKPFXCWuBvf9Ss623VQ5DA mint AuthorityPDA'',
       Log ''Adding Solana chain...'',
       Exec ''ntt add-chain Solana --token TokenkegQfeZyiNwAJbNbGKPFXCWuBvf9Ss623VQ5DA --mode burning --latest --payer ./payer.json'',
       Log ''Adding Base chain...'',
       Exec ''ntt add-chain Base --token 0xAAA --mode burning --latest --skip-verify'',
       Log ''Pushing configuration...'',
       Exec ''ntt push --yes --payer ./payer.json'',
       Log ''Deployment complete! Configuration saved in deployment.json'',
       Exec ''cat deployment.json'', Log ''AuthorityPDA1234''])"
proof -
  have find: "findNttKeypairFile (dirWorld [''nttXjson'', ''notes.txt'']) t
        = (Return ''nttXjson'', t @ [Exec findCommand])" for t
  proof -
    have "run (dirWorld [''nttXjson'', ''notes.txt'']) t findCommand
            = lsGrep [''nttXjson'', ''notes.txt'']"
      by (simp add: dirWorld_def)
    from findNttKeypairFile_result [OF this] show ?thesis
      by (simp add: matchingLines_examples)
  qed
  have other: "c \<noteq> findCommand \<Longrightarrow>
      run (dirWorld [''nttXjson'', ''notes.txt'']) t c = ExecOk ''AuthorityPDA1234''" for c t
    by (simp add: dirWorld_def)
  have ex: "existsSync (dirWorld [''nttXjson'', ''notes.txt'']) ''./payer.json''"
    and ok: "chdirOk (dirWorld [''nttXjson'', ''notes.txt'']) t d"
      "writeOk (dirWorld [''nttXjson'', ''notes.txt'']) t p q" for t d p q
    by (simp_all add: dirWorld_def)
  have pda: "slice0 (trim ''AuthorityPDA1234'') (- 4) = ''AuthorityPDA''"
    by (simp add: slice0_def trim_def isWhiteSpace_def Let_def)
  show ?thesis
    by (simp add: run_defs proc_defs demoArgv_def find other ex ok pda stringify_overrides
        findCommand_value keygenCommand_def)
qed

lemma burning_run_ambiguous:
  "main (demoArgv @ [''--mode'', ''burning'']) (dirWorld [''ntt1.json'', ''nttXjson'']) =
     (0,
      [Exec ''which solana'', Exec ''which spl-token'', Exec ''which anchor'',
       Exec ''which forge'', Exec ''which ntt'',
       Log ''Creating new NTT project: demo'', Exec ''ntt new demo'', Chdir ''demo'',
       Log ''Initializing project for Testnet'', Exec ''ntt init Testnet'',
       WriteFile ''overrides.json'' overridesText,
       Log ''Generating program keypair for burning mode...'',
       Exec keygenCommand, Exec findCommand,
       ErrValue (Error multipleText)])"
proof -
  have find: "findNttKeypairFile (dirWorld [''ntt1.json'', ''nttXjson'']) t
        = (Throw (Error multipleText), t @ [Exec findCommand])" for t
  proof -
    have "run (dirWorld [''ntt1.json'', ''nttXjson'']) t findCommand
            = lsGrep [''ntt1.json'', ''nttXjson'']"
      by (simp add: dirWorld_def)
    from findNttKeypairFile_result [OF this] show ?thesis
      by (simp add: matchingLines_stray)
  qed
  have other: "c \<noteq> findCommand \<Longrightarrow>
      run (dirWorld [''ntt1.json'', ''nttXjson'']) t c = ExecOk ''AuthorityPDA1234''" for c t
    by (simp add: dirWorld_def)
  have ex: "existsSync (dirWorld [''ntt1.json'', ''nttXjson'']) ''./payer.json''"
    and ok: "chdirOk (dirWorld [''ntt1.json'', ''nttXjson'']) t d"
      "writeOk (dirWorld [''ntt1.json'', ''nttXjson'']) t p q" for t d p q
    by (simp_all add: dirWorld_def)
  show ?thesis
    by (simp add: run_defs proc_defs demoArgv_def find other ex ok stringify_overrides
        findCommand_value keygenCommand_def)
qed

section \<open>The revision without checker and preparation\<close>

text \<open>
  In \<^verbatim>\<open>src/src/deploy-ntt.ts\<close> the commands are those of \<open>directPlan\<close> without the five
  probes, in every mode; the file written is the same; an argument list that
  \<^verbatim>\<open>parseArgs\<close> rejects ends the same way; and a failed command leaves the exit status 0
  as well.
\<close>

lemma follows_deployNTT_src:
  "follows w commands (deployNTT_src config)
     (drop 5 (directPlan config (case mode config of None \<Rightarrow> Burning | Some m \<Rightarrow> m)))"
  unfolding deployNTT_src_def Let_def
  apply (rule follows_eq)
   apply (rule follows_block_Cons [where proj = commands, OF commands_append]
      follows_block_Nil [where proj = commands, OF commands_append]
      follows_stmt [where proj = commands, OF commands_append]
      follows_consoleLog follows_execSync
      follows_processChdir_commands follows_writeFileSync follows_last_step)+
  apply (simp add: DEFAULT_CONFIG_def directPlan_def probes_def split: option.splits)
  done

lemma follows_deployNTT_src_fileOps:
  "follows w fileOps (deployNTT_src config)
     [Chdir (jsStr (projectName config)), WriteFile ''overrides.json'' overridesText]"
  unfolding deployNTT_src_def Let_def
  apply (rule follows_eq)
   apply (rule follows_fileOps_rules)+
  apply (simp add: stringify_overrides)
  done

lemma main_src_parse_Exit: "parseArgs argv w [] = (Exit n, t) \<Longrightarrow> main_src argv w = main argv w"
  by (simp add: main_src_def main_def tryCatch_def bind_proc_def)

lemma main_src_failed_command:
  "main_src demoArgv failingWorld =
     (0, [Log ''Creating new NTT project: demo'', Exec ''ntt new demo'',
          ErrValue (ExecError ''ntt new demo'' (Some 1))])"
  by (simp add: main_src_def deployNTT_src_def parseArgs_demo failingWorld_def demoConfig_def
      DEFAULT_CONFIG_def jsStr_def proc_defs)

section \<open>The scanner on a part of the argument list\<close>

lemma parseArgs_scan:
  assumes "parseArgs argv w t = (Return config, t')"
  shows "scanArgs (drop 2 argv) emptyConfig w t = (Return config, t)"
proof -
  from scanArgs_result [of "drop 2 argv" emptyConfig] show ?thesis
  proof (elim disjE exE conjE)
    fix c
    assume scan: "\<forall>w t. scanArgs (drop 2 argv) emptyConfig w t = (Return c, t)"
    with assms have "c = config"
      by (simp add: parseArgs_def bind_proc_def then_proc_def checkRequired_find checkPayer_def
          ret_def consoleError_def processExit_def split: option.splits if_splits)
    with scan show ?thesis by simp
  next
    fix evs
    assume "\<forall>w t. scanArgs (drop 2 argv) emptyConfig w t = (Exit 1, t @ evs)"
    with assms show ?thesis by (simp add: parseArgs_def bind_proc_def)
  qed
qed






lemma alike_falsy:
  assumes "alike c d"
  shows "falsy (getParam c q) = falsy (getParam d q)"
proof -
  from assms have fields: "falsy (projectName c) = falsy (projectName d)"
    "falsy (baseToken c) = falsy (baseToken d)"
    "falsy (solanaToken c) = falsy (solanaToken d)"
    "falsy (solanaPayer c) = falsy (solanaPayer d)"
    unfolding alike_def by metis+
  consider "q = ''projectName''" | "q = ''baseToken''" | "q = ''solanaToken''"
    | "q = ''solanaPayer''"
    | "q \<noteq> ''projectName''" and "q \<noteq> ''baseToken''" and "q \<noteq> ''solanaToken''"
      and "q \<noteq> ''solanaPayer''"
    by blast
  then show ?thesis by cases (simp_all add: getParam_def fields)
qed

lemma alike_checkRequired: "alike c d \<Longrightarrow> checkRequired ps c w t = checkRequired ps d w t"
  by (simp add: checkRequired_find alike_falsy [of c d])











section \<open>The argument parser: required parameters and help\<close>

text \<open>
  An argument list that lacks a required flag is not always answered with the report of
  a missing parameter: the scanner stops at the first token it rejects. With the
  arguments \<^verbatim>\<open>--mode fast\<close> all four required flags are missing and the only output is
  the message about the mode.
\<close>

theorem missing_flag_not_reported_counterexample:
  "''--project-name'' \<notin> set [''--mode'', ''fast'']
   \<and> main [''bun'', ''deploy-ntt.ts'', ''--mode'', ''fast''] (calmWorld []) = (1, [Err modeErrorText])"
  by (simp add: main_def parseArgs_def nextArg_def tryCatch_def bind_proc_def then_proc_def
      consoleError_def processExit_def)

text \<open>
  Claim C6, as the parser has it. For every argument list that the scanner accepts to
  its end (no unknown option, no help flag, no invalid mode) and that lacks at least one
  of the four required flags, the parser reports the first required parameter without a
  value, in the order project-name, base-token, solana-token, solana-payer and in its
  dash-cased form, prints the usage text and ends the process with status 1. The trace
  holds these two outputs only, so no external command was called.
\<close>

theorem missing_required_reported:
  assumes scan: "scanArgs args emptyConfig w [] = (Return config, t)"
    and missing: "\<exists>p\<in>set requiredParams. ''--'' @ dashCase p \<notin> set args"
  shows "\<exists>p. firstMissing config = Some p
           \<and> main (exe # script # args) w =
               (1, [Err (''Error: Missing required parameter --'' @ dashCase p), Log usageText])"
proof -
  from missing obtain p0 where p0: "p0 \<in> set requiredParams" "''--'' @ dashCase p0 \<notin> set args"
    by blast
  have "falsy (getParam config p0)"
    using scan p0 by (rule absent_flag_falsy)
  with p0(1) have "firstMissing config \<noteq> None"
    by (auto simp: firstMissing_def find_None_iff)
  then obtain p where "firstMissing config = Some p" by blast
  with main_missing [OF scan] show ?thesis by blast
qed

theorem missing_required_reported_witness:
  "scanArgs [''--base-token'', ''0xAAA''] emptyConfig (calmWorld []) []
     = (Return (emptyConfig\<lparr>baseToken := Some ''0xAAA''\<rparr>), [])
   \<and> (\<exists>p\<in>set requiredParams. ''--'' @ dashCase p \<notin> set [''--base-token'', ''0xAAA''])
   \<and> firstMissing (emptyConfig\<lparr>baseToken := Some ''0xAAA''\<rparr>) = Some ''projectName''
   \<and> main [''bun'', ''deploy-ntt.ts'', ''--base-token'', ''0xAAA''] (calmWorld [])
       = (1, [Err ''Error: Missing required parameter --project-name'', Log usageText])"
proof -
  have scan: "scanArgs [''--base-token'', ''0xAAA''] emptyConfig (calmWorld []) []
     = (Return (emptyConfig\<lparr>baseToken := Some ''0xAAA''\<rparr>), [])"
    by (simp add: nextArg_def ret_def)
  have missing: "\<exists>p\<in>set requiredParams. ''--'' @ dashCase p \<notin> set [''--base-token'', ''0xAAA'']"
    by (simp add: requiredParams_def dashCase_required)
  have first: "firstMissing (emptyConfig\<lparr>baseToken := Some ''0xAAA''\<rparr>) = Some ''projectName''"
    by (simp add: firstMissing_def requiredParams_def getParam_def falsy_def emptyConfig_def)
  from missing_required_reported [OF scan missing, of "''bun''" "''deploy-ntt.ts''"] first
  have "main [''bun'', ''deploy-ntt.ts'', ''--base-token'', ''0xAAA''] (calmWorld [])
       = (1, [Err (''Error: Missing required parameter --'' @ dashCase ''projectName''), Log usageText])"
    by simp
  with scan missing first show ?thesis by (simp add: dashCase_required)
qed








section \<open>The mode when \<^verbatim>\<open>--mode\<close> is omitted\<close>

text \<open>
  Claim C3. Take an argument list without the token \<^verbatim>\<open>--mode\<close> for which \<^verbatim>\<open>parseArgs\<close>
  returns a configuration. The configuration has no mode, and \<^verbatim>\<open>prepareSolanaDeployment\<close>
  does nothing on it: it compares the field itself with \<^verbatim>\<open>'burning'\<close>. In any world the
  commands that \<^verbatim>\<open>deployNTT\<close>, and so the whole run, calls are an initial part of the
  five probes, \<^verbatim>\<open>ntt new\<close>, \<^verbatim>\<open>ntt init\<close>, the two \<^verbatim>\<open>ntt add-chain\<close> commands with
  \<^verbatim>\<open>--mode burning\<close>, \<^verbatim>\<open>ntt push\<close> and \<^verbatim>\<open>cat deployment.json\<close>, and all of them when
  \<^verbatim>\<open>deployNTT\<close> returns: the key generation, the listing, the derivation of the
  authority and \<^verbatim>\<open>spl-token authorize\<close> are never called.
\<close>

theorem omitted_mode_skips_preparation:
  assumes omitted: "''--mode'' \<notin> set args"
    and parse: "parseArgs (exe # script # args) w [] = (Return config, t)"
  shows "mode config = None
       \<and> prepareSolanaDeployment config w u = (Return (), u)
       \<and> prefix (commands (snd (deployNTT config w u))) (commands u @ directPlan config Burning)
       \<and> (fst (deployNTT config w u) = Return ()
            \<longrightarrow> commands (snd (deployNTT config w u)) = commands u @ directPlan config Burning)
       \<and> prefix (commands (snd (main (exe # script # args) w))) (directPlan config Burning)
       \<and> (fst (deployNTT config w []) = Return ()
            \<longrightarrow> fst (main (exe # script # args) w) = 0
              \<and> commands (snd (main (exe # script # args) w)) = directPlan config Burning)"
proof -
  from parseArgs_scan [OF parse] have "scanArgs args emptyConfig w [] = (Return config, [])"
    by simp
  from scanArgs_absent(5) [OF this omitted] have none: "mode config = None"
    by (simp add: emptyConfig_def)
  then have prep: "prepareSolanaDeployment config w u = (Return (), u)"
    by (simp add: prepareSolanaDeployment_def ret_def)
  from none have plan: "follows w commands (deployNTT config) (directPlan config Burning)"
    using follows_deployNTT_no_preparation [of config w] by simp
  have run: "prefix (commands (snd (deployNTT config w v))) (commands v @ directPlan config Burning)
       \<and> (fst (deployNTT config w v) = Return ()
            \<longrightarrow> commands (snd (deployNTT config w v)) = commands v @ directPlan config Burning)"
    for v
  proof -
    from plan obtain r evs where "deployNTT config w v = (r, v @ evs)"
      and "prefix (commands evs) (directPlan config Burning)"
      and "(\<exists>x. r = Return x) \<longrightarrow> commands evs = directPlan config Burning"
      unfolding follows_def by blast
    then show ?thesis by (simp add: commands_append)
  qed
  have whole: "prefix (commands (snd (main (exe # script # args) w))) (directPlan config Burning)
       \<and> (fst (deployNTT config w []) = Return ()
            \<longrightarrow> fst (main (exe # script # args) w) = 0
              \<and> commands (snd (main (exe # script # args) w)) = directPlan config Burning)"
    using run [of "[]"]
    unfolding main_deploy(2) [OF parse]
    by (cases "deployNTT config w []"; cases "fst (deployNTT config w [])")
      (simp_all add: commands_append)
  from none prep run [of u] whole show ?thesis by blast
qed

theorem omitted_mode_skips_preparation_witness:
  "''--mode'' \<notin> set (drop 2 demoArgv)
   \<and> parseArgs demoArgv (calmWorld ''{}'') [] = (Return demoConfig, [])
   \<and> mode demoConfig = None
   \<and> prepareSolanaDeployment demoConfig (calmWorld ''{}'') [] = (Return (), [])
   \<and> fst (main demoArgv (calmWorld ''{}'')) = 0
   \<and> commands (snd (main demoArgv (calmWorld ''{}''))) =
       [ ''which solana'', ''which spl-token'', ''which anchor'', ''which forge'', ''which ntt'',
         ''ntt new demo'', ''ntt init Testnet'',
         ''ntt add-chain Solana --token TokenkegQfeZyiNwAJbNbGKPFXCWuBvf9Ss623VQ5DA --mode burning --latest --payer ./payer.json'',
         ''ntt add-chain Base --token 0xAAA --mode burning --latest --skip-verify'',
         ''ntt push --yes --payer ./payer.json'', ''cat deployment.json'' ]"
proof -
  have argv: "demoArgv = ''bun'' # ''deploy-ntt.ts'' # drop 2 demoArgv"
    by (simp add: demoArgv_def)
  have o: "''--mode'' \<notin> set (drop 2 demoArgv)" by (simp add: demoArgv_def)
  have p: "parseArgs demoArgv (calmWorld ''{}'') [] = (Return demoConfig, [])"
    by (rule parseArgs_demo) (simp add: calmWorld_def)
  then have p': "parseArgs (''bun'' # ''deploy-ntt.ts'' # drop 2 demoArgv) (calmWorld ''{}'') []
      = (Return demoConfig, [])"
    using argv by simp
  have r: "fst (deployNTT demoConfig (calmWorld ''{}'') []) = Return ()"
    by (simp add: deployNTT_calm)
  have plan: "directPlan demoConfig Burning =
       [ ''which solana'', ''which spl-token'', ''which anchor'', ''which forge'', ''which ntt'',
         ''ntt new demo'', ''ntt init Testnet'',
         ''ntt add-chain Solana --token TokenkegQfeZyiNwAJbNbGKPFXCWuBvf9Ss623VQ5DA --mode burning --latest --payer ./payer.json'',
         ''ntt add-chain Base --token 0xAAA --mode burning --latest --skip-verify'',
         ''ntt push --yes --payer ./payer.json'', ''cat deployment.json'' ]"
    by (simp add: directPlan_def demoConfig_def probes_def jsStr_def modeString_def)
  from omitted_mode_skips_preparation [OF o p', of "[]"] r plan argv o p
  show ?thesis by simp
qed

text \<open>
  Claim C1, evaluated. With the arguments of the scenario, the payer file present and
  every command succeeding, the run has no step between the writing of
  \<^verbatim>\<open>overrides.json\<close> and the registration of the Solana chain: no key pair is generated
  or located, no authority derived, the mint authority is not reassigned. The usage text,
  \<open>DEFAULT_CONFIG\<close> and the specification give \<^verbatim>\<open>burning\<close> as the default mode, and the
  two \<^verbatim>\<open>add-chain\<close> commands of this run carry it.
\<close>

theorem default_mode_run:
  "main demoArgv (calmWorld ''{}'') =
     (0,
      [Exec ''which solana'', Exec ''which spl-token'', Exec ''which anchor'',
       Exec ''which forge'', Exec ''which ntt'',
       Log ''Creating new NTT project: demo'', Exec ''ntt new demo'', Chdir ''demo'',
       Log ''Initializing project for Testnet'', Exec ''ntt init Testnet'',
       WriteFile ''overrides.json'' overridesText,
       Log ''Adding Solana chain...'',
       Exec ''ntt add-chain Solana --token TokenkegQfeZyiNwAJbNbGKPFXCWuBvf9Ss623VQ5DA --mode burning --latest --payer ./payer.json'',
       Log ''Adding Base chain...'',
       Exec ''ntt add-chain Base --token 0xAAA --mode burning --latest --skip-verify'',
       Log ''Pushing configuration...'',
       Exec ''ntt push --yes --payer ./payer.json'',
       Log ''Deployment complete! Configuration saved in deployment.json'',
       Exec ''cat deployment.json'', Log ''{}''])"
proof -
  have "parseArgs demoArgv (calmWorld ''{}'') [] = (Return demoConfig, [])"
    by (rule parseArgs_demo) (simp add: calmWorld_def)
  from main_deploy(2) [OF this] show ?thesis
    by (simp add: deployNTT_calm)
qed

section \<open>The exit status after a failed command\<close>

text \<open>
  Claim C2, evaluated. In a world where \<^verbatim>\<open>ntt new demo\<close> exits with status 1 the error
  is printed by the handler given to \<^verbatim>\<open>.catch\<close>, and the process ends with status 0.
  The \<^verbatim>\<open>catch\<close> block of the main block, which prints \<^verbatim>\<open>Deployment failed:\<close> and exits
  with status 1, is not reached by an error of \<^verbatim>\<open>deployNTT\<close>.
\<close>

theorem failed_command_exit_status:
  "run failingWorld
     [Exec ''which solana'', Exec ''which spl-token'', Exec ''which anchor'',
      Exec ''which forge'', Exec ''which ntt'', Log ''Creating new NTT project: demo'']
     ''ntt new demo'' = ExecFail (Some 1)
   \<and> main demoArgv failingWorld =
     (0,
      [Exec ''which solana'', Exec ''which spl-token'', Exec ''which anchor'',
       Exec ''which forge'', Exec ''which ntt'',
       Log ''Creating new NTT project: demo'', Exec ''ntt new demo'',
       ErrValue (ExecError ''ntt new demo'' (Some 1))])"
proof -
  have "parseArgs demoArgv failingWorld [] = (Return demoConfig, [])"
    by (rule parseArgs_demo) (simp add: failingWorld_def)
  from main_deploy(2) [OF this] show ?thesis
    by (simp add: run_defs proc_defs failingWorld_def demoConfig_def)
qed


section \<open>The prerequisite checker comes first\<close>

text \<open>
  The revision \<^verbatim>\<open>src/src/deploy-ntt.ts\<close> probes for nothing. In a world without
  \<^verbatim>\<open>anchor\<close> its run calls the deployment commands from \<^verbatim>\<open>ntt new\<close> to
  \<^verbatim>\<open>cat deployment.json\<close> and ends with status 0; no \<^verbatim>\<open>which\<close> command is in the trace
  and no remediation message is printed.
\<close>

theorem earlier_revision_has_no_probe_counterexample:
  "run noAnchorWorld [] ''which anchor'' = ExecFail (Some 1)
   \<and> main_src demoArgv noAnchorWorld =
     (0,
      [Log ''Creating new NTT project: demo'', Exec ''ntt new demo'', Chdir ''demo'',
       Log ''Initializing project for Testnet'', Exec ''ntt init Testnet'',
       WriteFile ''overrides.json'' overridesText,
       Log ''Adding Solana chain...'',
       Exec ''ntt add-chain Solana --token TokenkegQfeZyiNwAJbNbGKPFXCWuBvf9Ss623VQ5DA --mode burning --latest --payer ./payer.json'',
       Log ''Adding Base chain...'',
       Exec ''ntt add-chain Base --token 0xAAA --mode burning --latest --skip-verify'',
       Log ''Pushing configuration...'',
       Exec ''ntt push --yes --payer ./payer.json'',
       Log ''Deployment complete! Configuration saved in deployment.json'',
       Exec ''cat deployment.json'', Log []])"
  by (simp add: main_src_def deployNTT_src_def parseArgs_demo noAnchorWorld_def demoConfig_def
      DEFAULT_CONFIG_def jsStr_def modeString_def proc_defs stringify_overrides)

text \<open>
  Claim C4, for the script with the prerequisite checker, \<^verbatim>\<open>src/unnamed/part_000\<close>. When
  \<^verbatim>\<open>parseArgs\<close> has returned a configuration, the run starts with the
  probes \<^verbatim>\<open>which solana\<close>, \<^verbatim>\<open>which spl-token\<close>, \<^verbatim>\<open>which anchor\<close>, \<^verbatim>\<open>which forge\<close> and
  \<^verbatim>\<open>which ntt\<close>, in this order. If all five succeed they are the first five events of
  the trace, before any other command. If one fails, the trace is the probes up to the
  failing one followed by the five lines of the remediation message, and the process
  ends with status 1: no other command is called.
\<close>

theorem prerequisites_checked_first:
  assumes "parseArgs argv w [] = (Return config, t)"
  shows "if allSucceed w [] probes
         then prefix (map Exec probes) (snd (main argv w))
         else main argv w = (1, map Exec (attempted w [] probes) @ remediation)
              \<and> prefix (attempted w [] probes) probes"
proof (cases "allSucceed w [] probes")
  case True
  from deployNTT_after_probes [OF True, of config]
  have "prefix (map Exec probes) (snd (deployNTT config w []))" by simp
  then have "prefix (map Exec probes) (snd (main argv w))"
    unfolding main_deploy(2) [OF assms]
    by (auto split: prod.splits outcome.splits)
  with True show ?thesis by simp
next
  case False
  from deployNTT_probe_failed [OF False, of config]
  have "main argv w = (1, map Exec (attempted w [] probes) @ remediation)"
    unfolding main_deploy(2) [OF assms] by simp
  with False attempted_prefix [of w "[]" probes] show ?thesis by simp
qed

theorem prerequisites_checked_first_witness:
  "parseArgs demoArgv (calmWorld ''{}'') [] = (Return demoConfig, [])
   \<and> allSucceed (calmWorld ''{}'') [] probes
   \<and> prefix (map Exec probes) (snd (main demoArgv (calmWorld ''{}'')))
   \<and> parseArgs demoArgv noAnchorWorld [] = (Return demoConfig, [])
   \<and> \<not> allSucceed noAnchorWorld [] probes
   \<and> main demoArgv noAnchorWorld =
       (1, [Exec ''which solana'', Exec ''which spl-token'', Exec ''which anchor''] @ remediation)"
proof -
  have p1: "parseArgs demoArgv (calmWorld ''{}'') [] = (Return demoConfig, [])"
    by (rule parseArgs_demo) (simp add: calmWorld_def)
  have a1: "allSucceed (calmWorld ''{}'') [] probes"
    by (simp add: probes_def calmWorld_def)
  have p2: "parseArgs demoArgv noAnchorWorld [] = (Return demoConfig, [])"
    by (rule parseArgs_demo) (simp add: noAnchorWorld_def)
  have a2: "\<not> allSucceed noAnchorWorld [] probes"
    by (simp add: probes_def noAnchorWorld_def)
  have a3: "attempted noAnchorWorld [] probes = [''which solana'', ''which spl-token'', ''which anchor'']"
    by (simp add: probes_def noAnchorWorld_def)
  from prerequisites_checked_first [OF p1] prerequisites_checked_first [OF p2] p1 a1 p2 a2 a3
  show ?thesis by simp
qed

section \<open>The file \<^verbatim>\<open>overrides.json\<close>\<close>

text \<open>
  Claim C7. The text that \<^verbatim>\<open>JSON.stringify(overrides, null, 2)\<close> gives is the object
  with the two fixed endpoints under \<^verbatim>\<open>chains\<close>, indented by two spaces. For every
  configuration, world and starting trace, what \<^verbatim>\<open>deployNTT\<close> does to the file system is
  at most this: it changes into the directory named after the project, then writes
  \<^verbatim>\<open>overrides.json\<close> with exactly this text; a run of \<^verbatim>\<open>deployNTT\<close> that returns has done
  both, once. No field of the configuration occurs in the text.
\<close>

theorem overrides_file_fixed:
  "stringify 0 overrides = overridesText
   \<and> prefix (fileOps (snd (deployNTT config w t)))
        (fileOps t @ [Chdir (jsStr (projectName config)),
                      WriteFile ''overrides.json'' overridesText])
   \<and> (fst (deployNTT config w t) = Return ()
        \<longrightarrow> fileOps (snd (deployNTT config w t))
            = fileOps t @ [Chdir (jsStr (projectName config)),
                           WriteFile ''overrides.json'' overridesText])"
proof -
  let ?plan = "[Chdir (jsStr (projectName config)), WriteFile ''overrides.json'' overridesText]"
  from follows_deployNTT_fileOps [of w config]
  obtain r evs where run: "deployNTT config w t = (r, t @ evs)"
    and pre: "prefix (fileOps evs) ?plan"
    and all: "(\<exists>x. r = Return x) \<longrightarrow> fileOps evs = ?plan"
    unfolding follows_def by blast
  from run have sf: "snd (deployNTT config w t) = t @ evs" "fst (deployNTT config w t) = r"
    by simp_all
  from pre have a: "prefix (fileOps (t @ evs)) (fileOps t @ ?plan)"
    by (simp only: fileOps_append same_prefix_prefix)
  from all have b: "r = Return () \<longrightarrow> fileOps (t @ evs) = fileOps t @ ?plan"
    by (simp only: fileOps_append) blast
  from a b show ?thesis
    unfolding sf by (intro conjI stringify_overrides)
qed

theorem overrides_file_fixed_witness:
  "fst (deployNTT demoConfig (calmWorld ''{}'') []) = Return ()
   \<and> fileOps (snd (deployNTT demoConfig (calmWorld ''{}'') []))
       = [Chdir ''demo'', WriteFile ''overrides.json'' overridesText]"
proof -
  have r: "fst (deployNTT demoConfig (calmWorld ''{}'') []) = Return ()"
    by (simp add: deployNTT_calm)
  have p: "jsStr (projectName demoConfig) = ''demo''"
    by (simp add: demoConfig_def jsStr_def)
  from overrides_file_fixed [of demoConfig "calmWorld ''{}''" "[]"] r p
  show ?thesis by simp
qed

section \<open>The files that the keypair locator counts\<close>

text \<open>
  Claim C5, evaluated. The locator counts the lines that \<^verbatim>\<open>grep\<close> lets through, and the
  pattern it hands to \<^verbatim>\<open>grep\<close> is \<^verbatim>\<open>^ntt.*.json$\<close>, not the naming pattern of the keypair
  files. In a directory with \<^verbatim>\<open>ntt1.json\<close> and \<^verbatim>\<open>nttXjson\<close> exactly one entry has a name
  that starts with \<^verbatim>\<open>ntt\<close> and ends with \<^verbatim>\<open>.json\<close>, yet the locator throws the error about
  multiple files and the run in burning mode stops there. In a directory with
  \<^verbatim>\<open>nttXjson\<close> and \<^verbatim>\<open>notes.txt\<close> no entry has such a name, yet the locator returns
  \<^verbatim>\<open>nttXjson\<close> and the run in burning mode goes on to call \<^verbatim>\<open>spl-token authorize\<close>.
\<close>

theorem keypair_locator_counts_by_filter:
  "filter nttJsonName [''ntt1.json'', ''nttXjson''] = [''ntt1.json'']
   \<and> findNttKeypairFile (dirWorld [''ntt1.json'', ''nttXjson'']) []
       = (Throw (Error multipleText), [Exec findCommand])
   \<and> main (demoArgv @ [''--mode'', ''burning'']) (dirWorld [''ntt1.json'', ''nttXjson'']) =
     (0,
      [Exec ''which solana'', Exec ''which spl-token'', Exec ''which anchor'',
       Exec ''which forge'', Exec ''which ntt'',
       Log ''Creating new NTT project: demo'', Exec ''ntt new demo'', Chdir ''demo'',
       Log ''Initializing project for Testnet'', Exec ''ntt init Testnet'',
       WriteFile ''overrides.json'' overridesText,
       Log ''Generating program keypair for burning mode...'',
       Exec keygenCommand, Exec findCommand,
       ErrValue (Error multipleText)])
   \<and> filter nttJsonName [''nttXjson'', ''notes.txt''] = []
   \<and> findNttKeypairFile (dirWorld [''nttXjson'', ''notes.txt'']) []
       = (Return ''nttXjson'', [Exec findCommand])
   \<and> main (demoArgv @ [''--mode'', ''burning'']) (dirWorld [''nttXjson'', ''notes.txt'']) =
     (0,
      [Exec ''which solana'', Exec ''which spl-token'', Exec ''which anchor'',
       Exec ''which forge'', Exec ''which ntt'',
       Log ''Creating new NTT project: demo'', Exec ''ntt new demo'', Chdir ''demo'',
       Log ''Initializing project for Testnet'', Exec ''ntt init Testnet'',
       WriteFile ''overrides.json'' overridesText,
       Log ''Generating program keypair for burning mode...'',
       Exec keygenCommand, Exec findCommand,
       Log ''Program keypair file: nttXjson'',
       Exec ''ntt solana token-authority nttXjson'',
       Log ''Setting mint authority...'',
       Exec ''spl-token authorize TokenkegQfeZyiNwAJbNbGKPFXCWuBvf9Ss623VQ5DA mint AuthorityPDA'',
       Log ''Adding Solana chain...'',
       Exec ''ntt add-chain Solana --token TokenkegQfeZyiNwAJbNbGKPFXCWuBvf9Ss623VQ5DA --mode burning --latest --payer ./payer.json'',
       Log ''Adding Base chain...'',
       Exec ''ntt add-chain Base --token 0xAAA --mode burning --latest --skip-verify'',
       Log ''Pushing configuration...'',
       Exec ''ntt push --yes --payer ./payer.json'',
       Log ''Deployment complete! Configuration saved in deployment.json'',
       Exec ''cat deployment.json'', Log ''AuthorityPDA1234''])"
proof -
  have one: "run (dirWorld [''ntt1.json'', ''nttXjson'']) [] findCommand
          = lsGrep [''ntt1.json'', ''nttXjson'']"
    by (simp add: dirWorld_def)
  from findNttKeypairFile_result [OF one]
  have a: "findNttKeypairFile (dirWorld [''ntt1.json'', ''nttXjson'']) []
       = (Throw (Error multipleText), [Exec findCommand])"
    by (simp add: matchingLines_stray)
  have none: "run (dirWorld [''nttXjson'', ''notes.txt'']) [] findCommand
          = lsGrep [''nttXjson'', ''notes.txt'']"
    by (simp add: dirWorld_def)
  from findNttKeypairFile_result [OF none]
  have b: "findNttKeypairFile (dirWorld [''nttXjson'', ''notes.txt'']) []
       = (Return ''nttXjson'', [Exec findCommand])"
    by (simp add: matchingLines_examples)
  from nttJsonName_examples a burning_run_ambiguous b burning_run_stray
  show ?thesis by (intro conjI)
qed

text \<open>
  Claim C8, evaluated. In the source the pattern is written \<^verbatim>\<open>^ntt.*\.json$\<close> inside a
  quoted string literal; the value of the literal has lost the backslash, so that the
  pattern handed to \<^verbatim>\<open>grep\<close> is \<^verbatim>\<open>^ntt.*.json$\<close>, where the period before \<^verbatim>\<open>json\<close>
  stands for any character. The entry \<^verbatim>\<open>nttXjson\<close> does not end with \<^verbatim>\<open>.json\<close>, yet the
  filter lets it through and the locator returns it as the keypair file.
\<close>

theorem keypair_filter_accepts_any_character:
  "findCommand = ''ls -1 | grep -i '' @ [CHR 0x22] @ ''^ntt.*.json$'' @ [CHR 0x22]
   \<and> matchLine (parseBre grepPattern) ''nttXjson''
   \<and> \<not> nttJsonName ''nttXjson''
   \<and> findNttKeypairFile (dirWorld [''nttXjson'', ''notes.txt'']) []
       = (Return ''nttXjson'', [Exec findCommand])"
proof -
  have a: "findCommand = ''ls -1 | grep -i '' @ [CHR 0x22] @ ''^ntt.*.json$'' @ [CHR 0x22]"
    by (simp add: findCommand_value)
  have b: "matchLine (parseBre grepPattern) ''nttXjson''"
    by code_simp
  have c: "\<not> nttJsonName ''nttXjson''"
    by code_simp
  have "run (dirWorld [''nttXjson'', ''notes.txt'']) [] findCommand
          = lsGrep [''nttXjson'', ''notes.txt'']"
    by (simp add: dirWorld_def)
  from findNttKeypairFile_result [OF this]
  have d: "findNttKeypairFile (dirWorld [''nttXjson'', ''notes.txt'']) []
       = (Return ''nttXjson'', [Exec findCommand])"
    by (simp add: matchingLines_examples)
  from a b c d show ?thesis by blast
qed

end
